theory Spec2Isabelle
  imports Complex_Main "HOL-Library.Sublist"
begin

section \<open>Strings\<close>

text \<open>
  A JavaScript string is modelled as a list of code units, \<^typ>\<open>string\<close>. The model covers the
  code units below 256 (Latin-1). There \<open>toLowerCase\<close> changes the capital letters A to Z and
  U+00C0 to U+00DE (but not U+00D7, the multiplication sign), and \<open>toUpperCase\<close> changes the
  small letters a to z and U+00E0 to U+00FE (but not U+00F7, the division sign) and turns U+00DF,
  the sharp s, into the two code units SS. The upper case of two more characters, U+00B5 (the
  micro sign) and U+00FF, lies beyond 255 (U+039C and U+0178): the model leaves these two as they
  are, and the statements about upper case below are made for strings without them
  (\<open>single_case\<close>), or at explicit inputs.
\<close>

definition is_space :: "char \<Rightarrow> bool" where
  \<comment> \<open>the white space and line terminators of \<open>String.prototype.trim\<close> and of \<open>\s\<close>\<close>
  "is_space c = (let n = (of_char c :: nat) in (9 \<le> n \<and> n \<le> 13) \<or> n = 32 \<or> n = 160)"

definition is_digit :: "char \<Rightarrow> bool" where
  "is_digit c = (let n = (of_char c :: nat) in 48 \<le> n \<and> n \<le> 57)"

definition is_upper :: "char \<Rightarrow> bool" where
  "is_upper c = (let n = (of_char c :: nat) in 65 \<le> n \<and> n \<le> 90)"

definition is_capital :: "char \<Rightarrow> bool" where
  \<comment> \<open>the letters that \<open>toLowerCase\<close> changes\<close>
  "is_capital c =
     (let n = (of_char c :: nat) in (65 \<le> n \<and> n \<le> 90) \<or> (192 \<le> n \<and> n \<le> 222 \<and> n \<noteq> 215))"

definition is_small :: "char \<Rightarrow> bool" where
  \<comment> \<open>the letters that \<open>toUpperCase\<close> changes into one code unit below 256\<close>
  "is_small c =
     (let n = (of_char c :: nat) in (97 \<le> n \<and> n \<le> 122) \<or> (224 \<le> n \<and> n \<le> 254 \<and> n \<noteq> 247))"

definition lower_char :: "char \<Rightarrow> char" where
  "lower_char c = (if is_capital c then char_of ((of_char c :: nat) + 32) else c)"

definition upper_char :: "char \<Rightarrow> char" where
  "upper_char c = (if is_small c then char_of ((of_char c :: nat) - 32) else c)"

definition single_case :: "char \<Rightarrow> bool" where
  \<comment> \<open>the characters whose upper case is one code unit below 256: all but U+00DF, U+00B5
      and U+00FF\<close>
  "single_case c = (c \<noteq> CHR 0xDF \<and> c \<noteq> CHR 0xB5 \<and> c \<noteq> CHR 0xFF)"

definition toLowerCase :: "string \<Rightarrow> string" where
  "toLowerCase s = map lower_char s"

definition upper_units :: "char \<Rightarrow> string" where
  "upper_units c = (if c = CHR 0xDF then ''SS'' else [upper_char c])"

definition toUpperCase :: "string \<Rightarrow> string" where
  "toUpperCase s = concat (map upper_units s)"

definition trim :: "string \<Rightarrow> string" where
  "trim s = rev (dropWhile is_space (rev (dropWhile is_space s)))"

fun split_on :: "char \<Rightarrow> string \<Rightarrow> string list" where
  \<comment> \<open>\<open>s.split(c)\<close> for a one-character separator: the empty string gives one empty piece\<close>
  "split_on d [] = [[]]"
| "split_on d (c # cs) =
     (if c = d then [] # split_on d cs
      else (case split_on d cs of w # ws \<Rightarrow> (c # w) # ws | [] \<Rightarrow> [[c]]))"

fun join_with :: "char \<Rightarrow> string list \<Rightarrow> string" where
  "join_with d [] = []"
| "join_with d [w] = w"
| "join_with d (w # v # ws) = w @ d # join_with d (v # ws)"

definition startsWith :: "string \<Rightarrow> string \<Rightarrow> bool" where
  "startsWith s p = prefix p s"

fun includes_str :: "string \<Rightarrow> string \<Rightarrow> bool" where
  "includes_str [] p = (p = [])"
| "includes_str (c # cs) p = (prefix p (c # cs) \<or> includes_str cs p)"

section \<open>Contact names (contact.service.js)\<close>

definition capitalize :: "string \<Rightarrow> string" where
  \<comment> \<open>\<open>word.charAt(0).toUpperCase() + word.slice(1).toLowerCase()\<close>\<close>
  "capitalize w = toUpperCase (take 1 w) @ toLowerCase (drop 1 w)"

definition normalizeContactName :: "string \<Rightarrow> string" where
  "normalizeContactName name' =
     join_with CHR '' '' (map capitalize (split_on CHR '' '' (trim name')))"

text \<open>
  On strings of characters with a single upper case the normalisation is one pass over the trimmed name: a character is put in
  upper case when it starts a word (at the start, or right after a space) and in lower case
  otherwise.
\<close>

fun title_pass :: "bool \<Rightarrow> string \<Rightarrow> string" where
  "title_pass b [] = []"
| "title_pass b (c # cs) =
     (if c = CHR '' '' then c # title_pass True cs
      else (if b then upper_char c else lower_char c) # title_pass False cs)"

definition trimmed :: "string \<Rightarrow> bool" where
  "trimmed s = (s = [] \<or> (\<not> is_space (hd s) \<and> \<not> is_space (last s)))"


section \<open>Address formats\<close>

definition is_addr_char :: "char \<Rightarrow> bool" where
  \<comment> \<open>the character class \<open>[0-9A-Z]\<close>\<close>
  "is_addr_char c = (is_digit c \<or> is_upper c)"

definition has_stx_prefix :: "string \<Rightarrow> bool" where
  "has_stx_prefix s = (startsWith s ''SP'' \<or> startsWith s ''ST'')"

definition isValidSTXAddress :: "string \<Rightarrow> bool" where
  \<comment> \<open>the TypeScript validator: \<open>/^(SP|ST)[0-9A-Z]{38,40}$/\<close>\<close>
  "isValidSTXAddress address =
     (has_stx_prefix address \<and> 38 \<le> length (drop 2 address) \<and> length (drop 2 address) \<le> 40
      \<and> list_all is_addr_char (drop 2 address))"

definition stx_match_at :: "string \<Rightarrow> string option" where
  \<comment> \<open>\<open>(SP|ST)[0-9A-Z]{38,40}\<close> matched at the start of \<open>s\<close>; the quantifier is greedy\<close>
  "stx_match_at s =
     (if has_stx_prefix s \<and> 38 \<le> length (takeWhile is_addr_char (drop 2 s))
      then Some (take 2 s @ take 40 (takeWhile is_addr_char (drop 2 s)))
      else None)"

fun stx_search :: "string \<Rightarrow> string option" where
  \<comment> \<open>\<open>s.match(/(SP|ST)[0-9A-Z]{38,40}/)\<close>: the leftmost match\<close>
  "stx_search [] = stx_match_at []"
| "stx_search (c # cs) =
     (case stx_match_at (c # cs) of Some m \<Rightarrow> Some m | None \<Rightarrow> stx_search cs)"

definition holds_address :: "string \<Rightarrow> bool" where
  \<comment> \<open>\<open>s\<close> contains \<open>SP\<close> or \<open>ST\<close> followed by 38 characters of \<open>[0-9A-Z]\<close>\<close>
  "holds_address s = (\<exists>u pre body v. s = u @ pre @ body @ v \<and> (pre = ''SP'' \<or> pre = ''ST'')
     \<and> length body = 38 \<and> list_all is_addr_char body)"

definition address_starts :: "string \<Rightarrow> bool" where
  \<comment> \<open>\<open>SP\<close> or \<open>ST\<close> and at least 38 characters of \<open>[0-9A-Z]\<close> stand at the start of \<open>s\<close>\<close>
  "address_starts s = (has_stx_prefix s \<and> 38 \<le> length (takeWhile is_addr_char (drop 2 s)))"

definition first_address :: "string \<Rightarrow> string \<Rightarrow> bool" where
  \<comment> \<open>\<open>c\<close> is the first address in \<open>t\<close>: it stands at the leftmost place where an address
      starts, and ends after 40 characters of \<open>[0-9A-Z]\<close>, or earlier where they end\<close>
  "first_address t c =
     (\<exists>pre post. t = pre @ c @ post \<and> (\<forall>k<length pre. \<not> address_starts (drop k t))
        \<and> isValidSTXAddress c \<and> (length c = 42 \<or> post = [] \<or> \<not> is_addr_char (hd post)))"

definition isRegistrationMessage :: "string \<Rightarrow> string option" where
  "isRegistrationMessage message =
     (let trimmedMessage = trim message in
      if isValidSTXAddress trimmedMessage then Some trimmedMessage
      else (case stx_search trimmedMessage of
              Some m \<Rightarrow> if isValidSTXAddress m then Some m else None
            | None \<Rightarrow> None))"

datatype address_error =
    AddressRequired
  | AddressLength nat
  | AddressPrefix
  | AddressCharacters

definition validateStxAddress :: "string \<Rightarrow> address_error option" where
  \<comment> \<open>validator.js; \<open>None\<close> is \<open>{valid: true}\<close>, \<open>Some e\<close> is \<open>{valid: false, error: e}\<close>\<close>
  "validateStxAddress address =
     (if address = [] then Some AddressRequired
      else let cleanAddress = trim address in
        if length cleanAddress \<noteq> 41 then Some (AddressLength (length cleanAddress))
        else if \<not> startsWith cleanAddress ''SP'' \<and> \<not> startsWith cleanAddress ''ST''
          then Some AddressPrefix
        else if \<not> (drop 2 cleanAddress \<noteq> [] \<and> list_all is_addr_char (drop 2 cleanAddress))
          then Some AddressCharacters
        else None)"

definition isValidAddress :: "string \<Rightarrow> string \<Rightarrow> bool" where
  \<comment> \<open>stacks.service.js; \<open>network\<close> is the service's configured network:
      \<open>/^SP[0-9A-Z]{38,41}$/\<close> on mainnet, \<open>/^ST[0-9A-Z]{38,41}$/\<close> otherwise\<close>
  "isValidAddress network address =
     (startsWith address (if network = ''mainnet'' then ''SP'' else ''ST'')
      \<and> 38 \<le> length (drop 2 address) \<and> length (drop 2 address) \<le> 41
      \<and> list_all is_addr_char (drop 2 address))"

section \<open>Numbers\<close>

text \<open>
  A JavaScript number is an IEEE 754 double. A finite double is a rational number, so numbers
  are modelled as \<^typ>\<open>rat\<close> and every arithmetic operation is the exact operation followed
  by rounding to the nearest double, ties to even (\<open>fl\<close>). The exponent is bounded below,
  so small values round to subnormal doubles or to zero; values at or beyond \<open>2 ^ 1024\<close>, where
  a double overflows to infinity, are outside the model.
\<close>

function ilog2 :: "int \<Rightarrow> int" where
  "ilog2 n = (if n < 2 then 0 else 1 + ilog2 (n div 2))"
  by auto
termination
  by (relation "measure nat") auto

definition pow2 :: "int \<Rightarrow> rat" where
  "pow2 k = (if 0 \<le> k then 2 ^ nat k else 1 / 2 ^ nat (- k))"

definition exponent_of :: "rat \<Rightarrow> int" where
  \<comment> \<open>for \<open>x > 0\<close>: the \<open>e\<close> with \<open>2 ^ e \<le> x < 2 ^ (e + 1)\<close>\<close>
  "exponent_of x =
     (let (a, b) = quotient_of x;
          e = ilog2 a - ilog2 b
      in if pow2 e \<le> x then e else e - 1)"

definition round_half_even :: "rat \<Rightarrow> int" where
  "round_half_even x =
     (let f = \<lfloor>x\<rfloor>; d = x - of_int f
      in if d < 1 / 2 then f
         else if 1 / 2 < d then f + 1
         else if even f then f else f + 1)"

definition fl :: "rat \<Rightarrow> rat" where
  "fl x =
     (if x = 0 then 0
      else let q = pow2 (max (exponent_of \<bar>x\<bar>) (- 1022) - 52)
           in of_int (round_half_even (x / q)) * q)"

definition js_mul :: "rat \<Rightarrow> rat \<Rightarrow> rat" where
  "js_mul x y = fl (x * y)"

definition js_div :: "rat \<Rightarrow> rat \<Rightarrow> rat" where
  "js_div x y = fl (x / y)"

definition js_add :: "rat \<Rightarrow> rat \<Rightarrow> rat" where
  "js_add x y = fl (x + y)"

definition Math_floor :: "rat \<Rightarrow> rat" where
  "Math_floor x = of_int \<lfloor>x\<rfloor>"

definition Math_round :: "rat \<Rightarrow> rat" where
  \<comment> \<open>the nearest integer, a tie going up\<close>
  "Math_round x = of_int \<lfloor>x + 1 / 2\<rfloor>"

fun digits_value :: "int \<Rightarrow> string \<Rightarrow> int" where
  "digits_value acc [] = acc"
| "digits_value acc (c # cs) = digits_value (acc * 10 + (of_char c - 48)) cs"

definition decimal_value :: "string \<Rightarrow> rat" where
  \<comment> \<open>the value of a token \<open>\d+(\.\d+)?\<close> read as a decimal numeral\<close>
  "decimal_value s =
     (let ip = takeWhile is_digit s; fp = takeWhile is_digit (drop (Suc (length ip)) s)
      in of_int (digits_value 0 ip) + of_int (digits_value 0 fp) / 10 ^ length fp)"

definition parseFloat :: "string \<Rightarrow> rat" where
  \<comment> \<open>on the tokens the patterns capture, \<open>\d+(\.\d+)?\<close>\<close>
  "parseFloat s = fl (decimal_value s)"

definition parseInt :: "string \<Rightarrow> rat" where
  \<comment> \<open>on the tokens the patterns capture, \<open>\d+\<close>\<close>
  "parseInt s = fl (of_int (digits_value 0 (takeWhile is_digit s)))"

subsection \<open>Conversions between STX and microSTX\<close>

definition microStxToStx :: "rat \<Rightarrow> rat" where
  \<comment> \<open>formatter.ts and validator.js: \<open>microStx / 1_000_000\<close>; stacks.service.js applies
      \<open>parseFloat\<close> first, which returns a number unchanged\<close>
  "microStxToStx microStx = js_div microStx 1000000"

definition stxToMicroStx :: "rat \<Rightarrow> rat" where
  \<comment> \<open>formatter.ts and stacks.service.js: \<open>Math.floor(stx * 1000000)\<close>\<close>
  "stxToMicroStx stx = Math_floor (js_mul stx 1000000)"

definition stxToMicroStx_validator :: "rat \<Rightarrow> rat" where
  \<comment> \<open>validator.js: \<open>Math.round(stx * 1_000_000)\<close>\<close>
  "stxToMicroStx_validator stx = Math_round (js_mul stx 1000000)"

section \<open>Regular expressions\<close>

text \<open>
  The patterns of the handlers are matched as a backtracking matcher does: \<open>rx_match r s caps\<close>
  lists, in the order in which backtracking tries them, the ways in which \<open>r\<close> matches at the start
  of \<open>s\<close>, each as the rest of the input and the capture groups. All patterns carry the flag
  \<open>i\<close>, so a literal is compared without regard to case; the literals of the patterns are ASCII
  characters, which only their own two cases match.
\<close>

datatype cls = Space | Digit | AnyChar

datatype rx =
    Eps
  | Lit char
  | Cls cls
  | Seq rx rx
  | Alt rx rx
  | Opt rx
  | Star rx
  | StarLazy rx
  | Grp nat rx
  | EndOfInput

fun cls_ok :: "cls \<Rightarrow> char \<Rightarrow> bool" where
  "cls_ok Space c = is_space c"
| "cls_ok Digit c = is_digit c"
| "cls_ok AnyChar c = (c \<noteq> CHR 0x0A \<and> c \<noteq> CHR 0x0D)"

type_synonym captures = "nat \<rightharpoonup> string"

fun rx_match :: "rx \<Rightarrow> string \<Rightarrow> captures \<Rightarrow> (string \<times> captures) list" where
  "rx_match Eps s caps = [(s, caps)]"
| "rx_match (Lit c) s caps =
     (case s of [] \<Rightarrow> [] | x # xs \<Rightarrow> if lower_char x = lower_char c then [(xs, caps)] else [])"
| "rx_match (Cls k) s caps =
     (case s of [] \<Rightarrow> [] | x # xs \<Rightarrow> if cls_ok k x then [(xs, caps)] else [])"
| "rx_match (Seq a b) s caps =
     concat (map (\<lambda>(s', caps'). rx_match b s' caps') (rx_match a s caps))"
| "rx_match (Alt a b) s caps = rx_match a s caps @ rx_match b s caps"
| "rx_match (Opt a) s caps = rx_match a s caps @ [(s, caps)]"
| "rx_match (Star a) s caps =
     concat (map (\<lambda>(s', caps'). if length s' < length s then rx_match (Star a) s' caps' else [])
               (rx_match a s caps)) @ [(s, caps)]"
| "rx_match (StarLazy a) s caps =
     (s, caps) #
     concat (map (\<lambda>(s', caps'). if length s' < length s then rx_match (StarLazy a) s' caps' else [])
               (rx_match a s caps))"
| "rx_match (Grp i a) s caps =
     map (\<lambda>(s', caps'). (s', caps'(i \<mapsto> take (length s - length s') s))) (rx_match a s caps)"
| "rx_match EndOfInput s caps = (if s = [] then [(s, caps)] else [])"

definition Plus :: "rx \<Rightarrow> rx" where
  "Plus a = Seq a (Star a)"

definition PlusLazy :: "rx \<Rightarrow> rx" where
  "PlusLazy a = Seq a (StarLazy a)"

fun lits :: "string \<Rightarrow> rx" where
  "lits [] = Eps"
| "lits (c # cs) = Seq (Lit c) (lits cs)"

fun seqs :: "rx list \<Rightarrow> rx" where
  "seqs [] = Eps"
| "seqs (r # rs) = Seq r (seqs rs)"

fun rx_search :: "rx \<Rightarrow> string \<Rightarrow> captures option" where
  \<comment> \<open>\<open>s.match(r)\<close> for a pattern without the flag \<open>g\<close>: the first way of matching at the leftmost
      position that has one\<close>
  "rx_search r [] = (case rx_match r [] Map.empty of [] \<Rightarrow> None | (s', caps) # _ \<Rightarrow> Some caps)"
| "rx_search r (c # cs) =
     (case rx_match r (c # cs) Map.empty of [] \<Rightarrow> rx_search r cs | (s', caps) # _ \<Rightarrow> Some caps)"

definition number_rx :: rx where
  \<comment> \<open>\<open>\d+(?:\.\d+)?\<close>\<close>
  "number_rx = Seq (Plus (Cls Digit)) (Opt (Seq (Lit CHR ''.'') (Plus (Cls Digit))))"

definition send_rx :: rx where
  \<comment> \<open>\<open>/send\s+(\d+(?:\.\d+)?)\s*(?:stx)?\s+to\s+(.+)/i\<close>\<close>
  "send_rx = seqs [lits ''send'', Plus (Cls Space), Grp 1 number_rx, Star (Cls Space),
     Opt (lits ''stx''), Plus (Cls Space), lits ''to'', Plus (Cls Space), Grp 2 (Plus (Cls AnyChar))]"

definition escrow_rx :: rx where
  \<comment> \<open>\<open>/escrow\s+(\d+(?:\.\d+)?)\s+to\s+(.+?)\s+for\s+(\d+)\s+(hour|hours|day|days)/i\<close>\<close>
  "escrow_rx = seqs [lits ''escrow'', Plus (Cls Space), Grp 1 number_rx, Plus (Cls Space),
     lits ''to'', Plus (Cls Space), Grp 2 (PlusLazy (Cls AnyChar)), Plus (Cls Space), lits ''for'',
     Plus (Cls Space), Grp 3 (Plus (Cls Digit)), Plus (Cls Space),
     Grp 4 (Alt (lits ''hour'') (Alt (lits ''hours'') (Alt (lits ''day'') (lits ''days''))))]"

definition escrow_id_rx :: "string \<Rightarrow> rx" where
  \<comment> \<open>\<open>/release\s+escrow\s+#?(\d+)/i\<close>, and the same with \<open>refund\<close> and \<open>cancel\<close>\<close>
  "escrow_id_rx verb = seqs [lits verb, Plus (Cls Space), lits ''escrow'', Plus (Cls Space),
     Opt (Lit CHR ''#''), Grp 1 (Plus (Cls Digit))]"

definition escrow_status_rx :: rx where
  \<comment> \<open>\<open>/escrow\s+status\s+#?(\d+)/i\<close>\<close>
  "escrow_status_rx = seqs [lits ''escrow'', Plus (Cls Space), lits ''status'', Plus (Cls Space),
     Opt (Lit CHR ''#''), Grp 1 (Plus (Cls Digit))]"

definition group :: "captures \<Rightarrow> nat \<Rightarrow> string" where
  "group caps i = (case caps i of Some s \<Rightarrow> s | None \<Rightarrow> [])"

section \<open>Values, tables and the outside world\<close>

text \<open>
  The handlers pass objects around without declared types, so the values they exchange with
  the services are modelled as JavaScript values. Reading a property that an object does not
  have gives \<open>undefined\<close>; a call binds the arguments to the parameters of the function
  called, in order.
\<close>

datatype jsval =
    JUndefined
  | JNull
  | JBool bool
  | JNum rat
  | JStr string
  | JObj "(string \<times> jsval) list"

fun truthy :: "jsval \<Rightarrow> bool" where
  "truthy JUndefined = False"
| "truthy JNull = False"
| "truthy (JBool b) = b"
| "truthy (JNum n) = (n \<noteq> 0)"
| "truthy (JStr s) = (s \<noteq> [])"
| "truthy (JObj kvs) = True"

fun js_get :: "jsval \<Rightarrow> string \<Rightarrow> jsval" where
  "js_get (JObj kvs) k = (case map_of kvs k of Some v \<Rightarrow> v | None \<Rightarrow> JUndefined)"
| "js_get v k = JUndefined"

definition falsy :: "jsval \<Rightarrow> bool" where
  \<comment> \<open>\<open>!v\<close>\<close>
  "falsy v = (\<not> truthy v)"

definition nullish :: "jsval \<Rightarrow> bool" where
  \<comment> \<open>reading a property of \<open>undefined\<close> or \<open>null\<close> throws a TypeError\<close>
  "nullish v = (v = JUndefined \<or> v = JNull)"

fun opt_str :: "string option \<Rightarrow> jsval" where
  "opt_str None = JNull"
| "opt_str (Some s) = JStr s"

text \<open>
  The rows of the tables of the record store. Time stamps of rows are left out, except the
  expiry of a conversation state. The store is taken to be available: a query that reaches it
  fails only where the query itself reports an error (no row, or more than one, for
  \<open>single()\<close>).
\<close>

record user_row =
  phone_number :: string
  stx_address :: string

record contact_row =
  contact_id :: nat
  user_phone :: string
  contact_name :: string
  contact_stx_address :: string
  contact_phone :: "string option"

record state_row =
  state_type :: jsval
  state_data :: jsval
  expires_at :: int

record escrow_row =
  escrow_id :: nat
  sender_phone :: jsval
  sender_stx_address :: jsval
  recipient_phone :: jsval
  recipient_stx_address :: jsval
  amount_microstx :: jsval
  timeout_blocks :: jsval
  memo :: string
  tx_id :: string
  contract_escrow_id :: "nat option"
  status :: string
  release_tx_id :: "string option"

record transaction_row =
  t_tx_id :: string
  t_sender_phone :: jsval
  t_recipient_phone :: jsval
  t_sender_address :: jsval
  t_recipient_address :: jsval
  t_amount_micro_stx :: jsval
  t_fee_micro_stx :: rat
  t_memo :: string
  t_status :: string

datatype action = Send | Create | Release | Refund | Cancel | Status | AddContact

text \<open>
  An exception is a value: the error thrown, by the name of its message. \<open>NotAFunction f\<close> is
  the TypeError "\<open>f\<close> is not a function", \<open>PropertyOfNullish k\<close> the TypeError of reading the
  property \<open>k\<close> of \<open>undefined\<close> or \<open>null\<close>. \<open>Wrap p e\<close> is the error a \<open>catch\<close> block throws again
  with the message \<open>p\<close>, a colon and the message of \<open>e\<close>.
\<close>

datatype error =
    NotAFunction string
  | PropertyOfNullish string
  | ApiError
  | RecipientNotFound string
  | PrivateKeyNotAvailable
  | InvalidSenderAddress
  | InvalidRecipientAddress
  | InvalidAddress
  | AmountMustBePositive
  | RefundNotAllowed
  | BroadcastFailed string
  | MissingFields
  | ContactExists string
  | Wrap string error

text \<open>
  The texts of the messages are not modelled: a message is a constructor that names the text
  that a handler returns or that the registration handler sends, with the values the statements
  below refer to.
\<close>

datatype message =
    InvalidFormat action
  | AmountNotPositive
  | InsufficientBalance
  | ErrorText error
  | HandlerError error
  | Failed action error
  | EscrowNotFound action rat
  | NotAuthorized
  | NotActive action string
  | TimeoutNotReached rat
  | NeedRegistration
  | Info string
  | InvalidPhoneFormat
  | AlreadyRegistered
  | InvalidStxAddress
  | InvalidStxAddressFormat address_error
  | AddressAlreadyRegistered
  | RegistrationFailed
  | RegistrationPrompt
  | Welcome string

datatype chain_call =
    Transfer jsval jsval jsval
  | ContractCall string "jsval list" jsval

record world =
  users :: "user_row list"
  contacts :: "contact_row list"
  states :: "(string \<times> state_row) list"
  escrows :: "escrow_row list"
  transactions :: "transaction_row list"
  outbox :: "(string \<times> message) list"
  chain_log :: "chain_call list"
  clock :: int

text \<open>
  What lies outside the repository is a parameter: the network the Stacks service is configured
  for, the answers of the Stacks API (balance for the address asked, fee estimate, account
  nonce), the answer of the escrow contract's \<open>can-refund\<close>, and the outcome of broadcasting a
  transaction (a transaction id, or the reason of the failure); building and signing a
  transaction are taken to succeed. Every transaction handed to \<open>broadcastTransaction\<close> is
  written to \<open>chain_log\<close>: a transfer with sender, recipient and amount, or a call of the escrow
  contract with the function, its arguments and the key that signs.
\<close>

record env =
  network :: string
  balance_of :: "jsval \<Rightarrow> rat option"
  fee_mediumStx :: rat
  account_nonce :: "jsval \<Rightarrow> nat option"
  can_refund :: "jsval \<Rightarrow> bool"
  broadcast_result :: "chain_call \<Rightarrow> string + string"

datatype hresult = HNull | HOk | HFail message


section \<open>Computations\<close>

text \<open>
  An asynchronous function is modelled as a function of the world: it gives the world it leaves
  and either the value it returns, or the error it throws (the rejection of its promise).
  \<open>bnd\<close> runs one computation after another, \<open>try_catch\<close> is \<open>try { ... } catch (error) { ... }\<close>,
  and \<open>attempt\<close> hands the outcome of a computation, value or error, to what follows.
\<close>

type_synonym 'a io = "world \<Rightarrow> (error + 'a) \<times> world"

definition ret :: "'a \<Rightarrow> 'a io" where
  "ret x w = (Inr x, w)"

definition throw :: "error \<Rightarrow> 'a io" where
  "throw err w = (Inl err, w)"

definition bnd :: "'a io \<Rightarrow> ('a \<Rightarrow> 'b io) \<Rightarrow> 'b io" where
  "bnd m f w = (case m w of (Inl err, w') \<Rightarrow> (Inl err, w') | (Inr x, w') \<Rightarrow> f x w')"

definition try_catch :: "'a io \<Rightarrow> (error \<Rightarrow> 'a io) \<Rightarrow> 'a io" where
  "try_catch m h w = (case m w of (Inl err, w') \<Rightarrow> h err w' | (Inr x, w') \<Rightarrow> (Inr x, w'))"

definition attempt :: "'a io \<Rightarrow> (error + 'a) io" where
  "attempt m w = (case m w of (r, w') \<Rightarrow> (Inr r, w'))"

definition field :: "jsval \<Rightarrow> string \<Rightarrow> jsval io" where
  \<comment> \<open>the property read \<open>v.k\<close>\<close>
  "field v k = (if nullish v then throw (PropertyOfNullish k) else ret (js_get v k))"

definition string_method :: "jsval \<Rightarrow> string \<Rightarrow> unit io" where
  \<comment> \<open>a call \<open>v.k(...)\<close> of a method of strings, such as \<open>substring\<close>, for its exceptions\<close>
  "string_method v k =
     (case v of JStr s \<Rightarrow> ret () | JUndefined \<Rightarrow> throw (PropertyOfNullish k)
      | JNull \<Rightarrow> throw (PropertyOfNullish k) | _ \<Rightarrow> throw (NotAFunction k))"

section \<open>Module bindings\<close>

text \<open>
  \<open>user.service.js\<close>, \<open>state.service.js\<close> and \<open>whatsapp.service.js\<close> export their instance by
  name (\<open>export const userService = new UserService()\<close>) and their class by default
  (\<open>export default UserService\<close>). \<open>registration.handler.js\<close> imports the instances by name.
  \<open>webhook.ts\<close>, \<open>payment.handler.js\<close> and \<open>escrow.handler.js\<close> import the default
  (\<open>import userService from '../services/user.service.js'\<close>): in these three modules
  \<open>userService\<close>, \<open>stateService\<close> and \<open>whatsappService\<close> are the classes. The methods of a class
  belong to its instances and none of the three classes has a static member, so in these modules
  a call such as \<open>userService.getByPhone(phoneNumber)\<close> throws the TypeError
  "userService.getByPhone is not a function"; its arguments, which are evaluated first, have no
  effect. \<open>static_call\<close> is such a call. \<open>webhook.ts\<close> also takes the default export of
  \<open>registration.handler.js\<close>, the class \<open>RegistrationHandler\<close>, and calls \<open>handleMessage\<close> on it,
  which neither the class nor its instance has.

  \<open>contact.service.js\<close>, \<open>transaction.service.js\<close> and \<open>escrow.service.js\<close> import the default
  export of \<open>database.service.js\<close>, the class \<open>DatabaseService\<close>, as \<open>databaseService\<close>, and
  start every query with \<open>databaseService.client.from(table)\<close>. The class has no member
  \<open>client\<close> (nor has its instance, which keeps the client in \<open>supabase\<close> and returns it from
  \<open>getClient()\<close>), so \<open>databaseService.client\<close> is \<open>undefined\<close> and the read of \<open>from\<close> throws a
  TypeError before the store is asked. \<open>database_query\<close> is such a query; the rest of its
  statement, and the test of the store's answer that follows it, are not reached.

  The default exports of \<open>contact.service.js\<close>, \<open>transaction.service.js\<close>, \<open>escrow.service.js\<close>,
  \<open>stacks.service.js\<close>, \<open>payment.handler.js\<close> and \<open>escrow.handler.js\<close> are the instances.
\<close>

definition static_call :: "string \<Rightarrow> jsval io" where
  "static_call name = throw (NotAFunction name)"

definition databaseService_client :: jsval where
  "databaseService_client = JUndefined"

definition database_query :: "'a io" where
  "database_query = bnd (field databaseService_client ''from'') (\<lambda>from'. throw (NotAFunction ''from''))"

section \<open>Services\<close>

subsection \<open>whatsapp.service.js\<close>

definition validatePhone :: "string \<Rightarrow> bool" where
  \<comment> \<open>\<open>/^\+234\d{10}$/\<close>\<close>
  "validatePhone phone = (take 4 phone = ''+234'' \<and> length (drop 4 phone) = 10 \<and> list_all is_digit (drop 4 phone))"

definition sendMessage :: "world \<Rightarrow> string \<Rightarrow> message \<Rightarrow> world" where
  \<comment> \<open>the method of the instance: a number of another format gets no message; the caller is
      not told\<close>
  "sendMessage w to' msg =
     (if \<not> validatePhone to' then w else w\<lparr>outbox := outbox w @ [(to', msg)]\<rparr>)"

subsection \<open>user.service.js\<close>

definition user_exists :: "world \<Rightarrow> string \<Rightarrow> bool" where
  "user_exists w phoneNumber = (find (\<lambda>r. phone_number r = phoneNumber) (users w) \<noteq> None)"

definition addressExists :: "world \<Rightarrow> string \<Rightarrow> bool" where
  "addressExists w stxAddress = (find (\<lambda>r. stx_address r = stxAddress) (users w) \<noteq> None)"

definition create_user :: "world \<Rightarrow> string \<Rightarrow> string \<Rightarrow> string option \<times> world" where
  \<comment> \<open>\<open>create\<close>: the table keeps phone numbers and addresses unique; \<open>Some e\<close> is the failure\<close>
  "create_user w phoneNumber stxAddress =
     (if user_exists w phoneNumber then (Some ''Phone number already registered'', w)
      else if addressExists w stxAddress then (Some ''STX address already registered'', w)
      else (None, w\<lparr>users := users w @ [\<lparr>phone_number = phoneNumber, stx_address = stxAddress\<rparr>]\<rparr>))"

subsection \<open>state.service.js\<close>

definition state_of :: "world \<Rightarrow> string \<Rightarrow> state_row option" where
  \<comment> \<open>the row of the table \<open>conversation_states\<close> with the phone number, its key\<close>
  "state_of w phoneNumber = map_of (states w) phoneNumber"

definition setState :: "world \<Rightarrow> string \<Rightarrow> jsval list \<Rightarrow> world" where
  \<comment> \<open>\<open>setState(phoneNumber, stateType, stateData = {})\<close>: \<open>args\<close> are the arguments of the call
      after the phone number. The function has three parameters; further arguments are bound
      to nothing.\<close>
  "setState w phoneNumber args =
     (let stateType = (if 0 < length args then args ! 0 else JUndefined);
          stateData = (if 1 < length args \<and> args ! 1 \<noteq> JUndefined then args ! 1 else JObj [])
      in w\<lparr>states :=
            (phoneNumber, \<lparr>state_type = stateType, state_data = stateData, expires_at = clock w + 600000\<rparr>)
            # filter (\<lambda>(k, row). k \<noteq> phoneNumber) (states w)\<rparr>)"

definition getState :: "world \<Rightarrow> string \<Rightarrow> jsval" where
  "getState w phoneNumber =
     (case state_of w phoneNumber of
        None \<Rightarrow> JObj [(''success'', JBool False), (''error'', JStr ''No active state found'')]
      | Some row \<Rightarrow>
          if clock w < expires_at row
          then JObj [(''success'', JBool True),
                 (''state'', JObj [(''phoneNumber'', JStr phoneNumber), (''stateType'', state_type row),
                    (''stateData'', state_data row), (''expiresAt'', JNum (of_int (expires_at row)))])]
          else JObj [(''success'', JBool False), (''error'', JStr ''No active state found'')])"

definition clearState :: "world \<Rightarrow> string \<Rightarrow> world" where
  "clearState w phoneNumber = w\<lparr>states := filter (\<lambda>(k, row). k \<noteq> phoneNumber) (states w)\<rparr>"

subsection \<open>stacks.service.js\<close>

definition js_isValidAddress :: "string \<Rightarrow> jsval \<Rightarrow> bool" where
  \<comment> \<open>\<open>isValidAddress\<close> on any value: the pattern is tested on the text of the value, and only
      the text of a string can have the form of an address\<close>
  "js_isValidAddress net v = (case v of JStr s \<Rightarrow> isValidAddress net s | _ \<Rightarrow> False)"

definition getBalance :: "env \<Rightarrow> jsval \<Rightarrow> rat io" where
  \<comment> \<open>the field \<open>stx.balanceStx\<close> of the result, or the error thrown\<close>
  "getBalance e address =
     (case balance_of e address of None \<Rightarrow> throw (Wrap ''Failed to get balance'' ApiError)
      | Some b \<Rightarrow> ret b)"

definition getAccountInfo :: "env \<Rightarrow> jsval \<Rightarrow> nat io" where
  \<comment> \<open>the field \<open>nonce\<close> of the result, or the error thrown\<close>
  "getAccountInfo e address =
     (case account_nonce e address of None \<Rightarrow> throw (Wrap ''Failed to get account info'' ApiError)
      | Some n \<Rightarrow> ret n)"

fun js_num :: "jsval \<Rightarrow> rat option" where
  \<comment> \<open>the numeric value of an operand of \<open><=\<close>; \<open>None\<close> is NaN. Of the strings, the empty
      one and the decimal tokens are covered.\<close>
  "js_num (JNum n) = Some n"
| "js_num JUndefined = None"
| "js_num JNull = Some 0"
| "js_num (JBool b) = Some (if b then 1 else 0)"
| "js_num (JStr s) = (if trim s = [] then Some 0 else Some (parseFloat (trim s)))"
| "js_num (JObj kvs) = None"

definition js_le_zero :: "jsval \<Rightarrow> bool" where
  "js_le_zero v = (case js_num v of None \<Rightarrow> False | Some n \<Rightarrow> n \<le> 0)"

subsection \<open>contact.service.js\<close>

definition getContactByName :: "string \<Rightarrow> string \<Rightarrow> contact_row option io" where
  \<comment> \<open>the query: \<open>.select('*').eq('user_phone', userPhone).ilike('contact_name',
      normalizedName).single()\<close>\<close>
  "getContactByName userPhone contactName =
     try_catch
       (let normalizedName = normalizeContactName contactName in database_query)
       (\<lambda>error. throw (Wrap ''Failed to get contact'' error))"

definition getContacts :: "string \<Rightarrow> contact_row list io" where
  "getContacts userPhone =
     try_catch database_query (\<lambda>error. throw (Wrap ''Failed to get contacts'' error))"

definition addContact :: "env \<Rightarrow> string \<Rightarrow> string \<Rightarrow> string \<Rightarrow> contact_row io" where
  \<comment> \<open>after the test for an existing contact comes the query that inserts the row\<close>
  "addContact e userPhone contactName contactStxAddress =
     try_catch
       (if userPhone = [] \<or> contactName = [] \<or> contactStxAddress = [] then throw MissingFields
        else if \<not> isValidAddress (network e) contactStxAddress then throw InvalidAddress
        else let normalizedName = normalizeContactName contactName in
          bnd (getContactByName userPhone normalizedName) (\<lambda>existing.
            case existing of
              Some contact \<Rightarrow> throw (ContactExists normalizedName)
            | None \<Rightarrow> database_query))
       (\<lambda>error. throw (Wrap ''Failed to add contact'' error))"

definition contact_obj :: "contact_row \<Rightarrow> jsval" where
  \<comment> \<open>what \<open>resolveRecipient\<close> returns for a contact\<close>
  "contact_obj contact =
     JObj [(''type'', JStr ''contact''), (''address'', JStr (contact_stx_address contact)),
           (''name'', JStr (contact_name contact)), (''phone'', opt_str (contact_phone contact)),
           (''isContact'', JBool True), (''contactId'', JNum (of_nat (contact_id contact)))]"

definition address_obj :: "string \<Rightarrow> jsval" where
  \<comment> \<open>what \<open>resolveRecipient\<close> returns for an address\<close>
  "address_obj nameOrAddress =
     JObj [(''type'', JStr ''address''), (''address'', JStr nameOrAddress), (''name'', JNull),
           (''isContact'', JBool False)]"

definition resolveRecipient :: "env \<Rightarrow> string \<Rightarrow> string \<Rightarrow> jsval io" where
  "resolveRecipient e userPhone nameOrAddress =
     try_catch
       (if isValidAddress (network e) nameOrAddress then ret (address_obj nameOrAddress)
        else bnd (getContactByName userPhone nameOrAddress) (\<lambda>contact.
          case contact of
            Some c \<Rightarrow> ret (contact_obj c)
          | None \<Rightarrow> throw (RecipientNotFound nameOrAddress)))
       (\<lambda>error. throw error)"

subsection \<open>transaction.service.js\<close>

definition broadcast :: "env \<Rightarrow> chain_call \<Rightarrow> (string + string) io" where
  \<comment> \<open>the transaction is built, signed and handed to \<open>broadcastTransaction\<close>; the result is
      the transaction id, or the reason of the failure\<close>
  "broadcast e c w = (Inr (broadcast_result e c), w\<lparr>chain_log := chain_log w @ [c]\<rparr>)"

definition createTransaction :: "env \<Rightarrow> jsval \<Rightarrow> jsval \<Rightarrow> jsval \<Rightarrow> jsval \<Rightarrow> chain_call io" where
  \<comment> \<open>the result is the transfer to broadcast\<close>
  "createTransaction e senderAddress senderKey recipientAddress amountMicroStx =
     try_catch
       (if \<not> js_isValidAddress (network e) senderAddress then throw InvalidSenderAddress
        else if \<not> js_isValidAddress (network e) recipientAddress then throw InvalidRecipientAddress
        else if js_le_zero amountMicroStx then throw AmountMustBePositive
        else bnd (getAccountInfo e senderAddress) (\<lambda>nonce.
          ret (Transfer senderAddress recipientAddress amountMicroStx)))
       (\<lambda>error. throw (Wrap ''Failed to create transaction'' error))"

definition recordTransaction :: "string \<Rightarrow> transaction_row io" where
  \<comment> \<open>the query that inserts the row of the transaction with the id\<close>
  "recordTransaction txId =
     try_catch database_query (\<lambda>error. throw (Wrap ''Failed to record transaction'' error))"

definition sendTransaction ::
  "env \<Rightarrow> jsval \<Rightarrow> jsval \<Rightarrow> jsval \<Rightarrow> jsval \<Rightarrow> jsval \<Rightarrow> jsval \<Rightarrow> string io" where
  \<comment> \<open>the result is the field \<open>txId\<close> of the object returned\<close>
  "sendTransaction e senderAddress senderKey senderPhone recipientAddress recipientPhone amountMicroStx =
     try_catch
       (bnd (createTransaction e senderAddress senderKey recipientAddress amountMicroStx) (\<lambda>txData.
        bnd (broadcast e txData) (\<lambda>broadcastResult.
          case broadcastResult of
            Inl reason \<Rightarrow> throw (BroadcastFailed reason)
          | Inr txId \<Rightarrow> bnd (recordTransaction txId) (\<lambda>row. ret txId))))
       (\<lambda>error. throw (Wrap ''Failed to send transaction'' error))"

definition getTransactionsByPhone :: "string \<Rightarrow> transaction_row list io" where
  "getTransactionsByPhone phoneNumber =
     try_catch database_query (\<lambda>error. throw (Wrap ''Failed to get transactions'' error))"

subsection \<open>escrow.service.js\<close>

definition saveEscrowToDatabase :: "string \<Rightarrow> escrow_row io" where
  \<comment> \<open>the query that inserts the row, with the status \<open>pending\<close>, of the escrow created by the
      transaction with the id\<close>
  "saveEscrowToDatabase txId =
     try_catch database_query (\<lambda>error. throw (Wrap ''Failed to save escrow'' error))"

definition updateEscrowStatus :: "jsval \<Rightarrow> string \<Rightarrow> string \<Rightarrow> escrow_row io" where
  \<comment> \<open>the query that sets \<open>status\<close> and \<open>release_tx_id\<close> of the row with the contract id\<close>
  "updateEscrowStatus contractEscrowId status' txId =
     try_catch database_query (\<lambda>error. throw (Wrap ''Failed to update escrow status'' error))"

definition getEscrowsByPhone :: "string \<Rightarrow> string \<Rightarrow> escrow_row list io" where
  \<comment> \<open>the query on the rows sent, received, or both, by the role\<close>
  "getEscrowsByPhone phoneNumber role =
     try_catch database_query (\<lambda>error. throw (Wrap ''Failed to get escrows'' error))"

definition createEscrow ::
  "env \<Rightarrow> jsval \<Rightarrow> jsval \<Rightarrow> jsval \<Rightarrow> jsval \<Rightarrow> jsval \<Rightarrow> string \<Rightarrow> jsval \<Rightarrow> jsval
     \<Rightarrow> (string \<times> nat) io" where
  \<comment> \<open>the result is the fields \<open>txId\<close> and \<open>escrowId\<close> of the object returned\<close>
  "createEscrow e senderAddress senderKey recipientAddress amountMicroStx timeoutBlocks memo'
       senderPhone recipientPhone =
     try_catch
       (if \<not> js_isValidAddress (network e) senderAddress then throw InvalidSenderAddress
        else if \<not> js_isValidAddress (network e) recipientAddress then throw InvalidRecipientAddress
        else if js_le_zero amountMicroStx then throw AmountMustBePositive
        else bnd (getAccountInfo e senderAddress) (\<lambda>nonce.
             bnd (broadcast e (ContractCall ''create-escrow''
                    [recipientAddress, amountMicroStx, timeoutBlocks, JStr memo'] senderKey))
               (\<lambda>broadcastResponse.
                  case broadcastResponse of
                    Inl reason \<Rightarrow> throw (BroadcastFailed reason)
                  | Inr txId \<Rightarrow>
                      bnd (saveEscrowToDatabase txId) (\<lambda>escrowRecord.
                        ret (txId, escrow_id escrowRecord)))))
       (\<lambda>error. throw (Wrap ''Failed to create escrow'' error))"

definition contract_operation ::
  "string \<Rightarrow> string \<Rightarrow> env \<Rightarrow> jsval \<Rightarrow> jsval \<Rightarrow> jsval \<Rightarrow> string io" where
  \<comment> \<open>the statements that \<open>releaseEscrow\<close>, \<open>cancelEscrow\<close> and \<open>refundEscrow\<close> share: nonce,
      contract call, broadcast, status update; the result is the field \<open>txId\<close>\<close>
  "contract_operation functionName status' e contractEscrowId callerAddress callerKey =
     bnd (getAccountInfo e callerAddress) (\<lambda>nonce.
     bnd (broadcast e (ContractCall functionName [contractEscrowId] callerKey)) (\<lambda>broadcastResponse.
       case broadcastResponse of
         Inl reason \<Rightarrow> throw (BroadcastFailed reason)
       | Inr txId \<Rightarrow> bnd (updateEscrowStatus contractEscrowId status' txId) (\<lambda>row. ret txId)))"

definition releaseEscrow :: "env \<Rightarrow> jsval \<Rightarrow> jsval \<Rightarrow> jsval \<Rightarrow> string io" where
  "releaseEscrow e contractEscrowId callerAddress callerKey =
     try_catch
       (contract_operation ''release-escrow'' ''released'' e contractEscrowId callerAddress callerKey)
       (\<lambda>error. throw (Wrap ''Failed to release escrow'' error))"

definition cancelEscrow :: "env \<Rightarrow> jsval \<Rightarrow> jsval \<Rightarrow> jsval \<Rightarrow> string io" where
  "cancelEscrow e contractEscrowId senderAddress senderKey =
     try_catch
       (contract_operation ''cancel-escrow'' ''cancelled'' e contractEscrowId senderAddress senderKey)
       (\<lambda>error. throw (Wrap ''Failed to cancel escrow'' error))"

definition canRefund :: "env \<Rightarrow> jsval \<Rightarrow> bool" where
  \<comment> \<open>whether the value the read-only call returns counts as true; \<open>false\<close> when the call fails\<close>
  "canRefund e escrowId = can_refund e escrowId"

definition refundEscrow :: "env \<Rightarrow> jsval \<Rightarrow> jsval \<Rightarrow> jsval \<Rightarrow> string io" where
  "refundEscrow e contractEscrowId senderAddress senderKey =
     try_catch
       (if \<not> canRefund e contractEscrowId then throw RefundNotAllowed
        else contract_operation ''refund-escrow'' ''refunded'' e contractEscrowId senderAddress senderKey)
       (\<lambda>error. throw (Wrap ''Failed to refund escrow'' error))"

definition has_contract_id :: "jsval \<Rightarrow> escrow_row \<Rightarrow> bool" where
  "has_contract_id contractEscrowId r =
     (case contract_escrow_id r of None \<Rightarrow> False | Some k \<Rightarrow> contractEscrowId = JNum (of_nat k))"

definition escrow_obj :: "escrow_row \<Rightarrow> jsval" where
  \<comment> \<open>a row as the object a query returns\<close>
  "escrow_obj r =
     JObj [(''id'', JNum (of_nat (escrow_id r))), (''sender_phone'', sender_phone r),
           (''sender_stx_address'', sender_stx_address r), (''recipient_phone'', recipient_phone r),
           (''recipient_stx_address'', recipient_stx_address r), (''amount_microstx'', amount_microstx r),
           (''timeout_blocks'', timeout_blocks r), (''memo'', JStr (memo r)), (''tx_id'', JStr (tx_id r)),
           (''contract_escrow_id'',
              (case contract_escrow_id r of None \<Rightarrow> JNull | Some k \<Rightarrow> JNum (of_nat k))),
           (''status'', JStr (status r))]"

section \<open>Handlers\<close>

subsection \<open>registration.handler.js\<close>

definition startRegistration :: "world \<Rightarrow> string \<Rightarrow> bool \<times> world" where
  "startRegistration w phoneNumber =
     (let w1 = setState w phoneNumber
                 [JStr ''registration'', JObj [(''step'', JNum 1), (''awaitingAddress'', JBool True)]]
      in (True, sendMessage w1 phoneNumber RegistrationPrompt))"

definition completeRegistration :: "world \<Rightarrow> string \<Rightarrow> string \<Rightarrow> bool \<times> world" where
  "completeRegistration w phoneNumber stxAddress =
     (let cleanAddress = trim stxAddress in
      case validateStxAddress cleanAddress of
        Some err \<Rightarrow> (False, sendMessage w phoneNumber (InvalidStxAddressFormat err))
      | None \<Rightarrow>
          if addressExists w cleanAddress
          then (False, clearState (sendMessage w phoneNumber AddressAlreadyRegistered) phoneNumber)
          else (case create_user w phoneNumber cleanAddress of
                  (Some err, w1) \<Rightarrow> (False, clearState (sendMessage w1 phoneNumber RegistrationFailed) phoneNumber)
                | (None, w1) \<Rightarrow> (True, sendMessage (clearState w1 phoneNumber) phoneNumber (Welcome cleanAddress))))"

definition handleRegistration :: "world \<Rightarrow> string \<Rightarrow> string \<Rightarrow> bool \<times> world" where
  "handleRegistration w phoneNumber messageBody =
     (if \<not> validatePhone phoneNumber then (False, sendMessage w phoneNumber InvalidPhoneFormat)
      else if user_exists w phoneNumber then (False, sendMessage w phoneNumber AlreadyRegistered)
      else if \<not> truthy (js_get (getState w phoneNumber) ''success'')
        then startRegistration w phoneNumber
      else completeRegistration w phoneNumber messageBody)"

subsection \<open>payment.handler.js\<close>

text \<open>
  In this module and in the next two, \<open>userService\<close>, \<open>stateService\<close> and \<open>whatsappService\<close> are
  the classes: a call of one of their methods is a \<open>static_call\<close>. A handler returns
  \<open>{success: true}\<close> (\<open>HOk\<close>), \<open>{success: false, message}\<close> (\<open>HFail\<close>) or \<open>null\<close> (\<open>HNull\<close>).
\<close>

fun split_ws_from :: "bool \<Rightarrow> string \<Rightarrow> string list" where
  \<comment> \<open>the flag says that the character before was white space\<close>
  "split_ws_from b [] = [[]]"
| "split_ws_from b (c # cs) =
     (if is_space c then (if b then split_ws_from True cs else [] # split_ws_from True cs)
      else (case split_ws_from False cs of w # ws \<Rightarrow> (c # w) # ws | [] \<Rightarrow> [[c]]))"

definition split_ws :: "string \<Rightarrow> string list" where
  \<comment> \<open>\<open>message.split(/\s+/)\<close>\<close>
  "split_ws s = split_ws_from False s"

definition handleBalance :: "env \<Rightarrow> string \<Rightarrow> jsval \<Rightarrow> hresult io" where
  \<comment> \<open>the text of the reply quotes \<open>user.stx_address.substring(0, 10)\<close>\<close>
  "handleBalance e phoneNumber user =
     try_catch
       (bnd (field user ''stx_address'') (\<lambda>address.
        bnd (getBalance e address) (\<lambda>balance.
        bnd (string_method address ''substring'') (\<lambda>u.
        bnd (static_call ''whatsappService.sendMessage'') (\<lambda>sent.
        ret HOk)))))
       (\<lambda>error. ret (HFail (Info ''Failed to get balance'')))"

definition handleHistory :: "string \<Rightarrow> jsval \<Rightarrow> hresult io" where
  \<comment> \<open>the list of transactions, or the text for an empty list, is sent\<close>
  "handleHistory phoneNumber user =
     try_catch
       (bnd (getTransactionsByPhone phoneNumber) (\<lambda>transactions.
        bnd (static_call ''whatsappService.sendMessage'') (\<lambda>sent.
        ret HOk)))
       (\<lambda>error. ret (HFail (Info ''Failed to get transaction history'')))"

definition handleListContacts :: "string \<Rightarrow> hresult io" where
  "handleListContacts phoneNumber =
     try_catch
       (bnd (getContacts phoneNumber) (\<lambda>contacts.
        bnd (static_call ''whatsappService.sendMessage'') (\<lambda>sent.
        ret HOk)))
       (\<lambda>error. ret (HFail (Info ''Failed to get contacts'')))"

definition handleAddContact :: "env \<Rightarrow> string \<Rightarrow> string \<Rightarrow> hresult io" where
  "handleAddContact e phoneNumber message =
     try_catch
       (let parts = split_ws message in
        if length parts < 4 then ret (HFail (InvalidFormat AddContact))
        else let contactName = parts ! 2; contactAddress = parts ! 3 in
          if \<not> isValidAddress (network e) contactAddress then ret (HFail InvalidStxAddress)
          else bnd (addContact e phoneNumber contactName contactAddress) (\<lambda>contact.
               bnd (static_call ''whatsappService.sendMessage'') (\<lambda>sent.
               ret HOk)))
       (\<lambda>error. ret (HFail (ErrorText error)))"

definition handleSend :: "env \<Rightarrow> string \<Rightarrow> string \<Rightarrow> jsval \<Rightarrow> hresult io" where
  \<comment> \<open>\<open>estimateFee\<close> does not throw: the fee is the estimate of the API, or the default. The
      call of \<open>setState\<close> has the arguments \<open>'payment'\<close>, \<open>'confirm_send'\<close> and the payload with
      amount, recipient and sender address; the call of \<open>sendMessage\<close> has the confirmation
      prompt.\<close>
  "handleSend e phoneNumber message user =
     try_catch
       (case rx_search send_rx message of
          None \<Rightarrow> ret (HFail (InvalidFormat Send))
        | Some sendMatch \<Rightarrow>
            let amount = parseFloat (group sendMatch 1);
                recipientInput = trim (group sendMatch 2)
            in if amount \<le> 0 then ret (HFail AmountNotPositive)
               else
                 bnd (field user ''stx_address'') (\<lambda>address.
                 bnd (getBalance e address) (\<lambda>balanceStx.
                   let totalNeeded = js_add amount (fee_mediumStx e) in
                   if balanceStx < totalNeeded then ret (HFail InsufficientBalance)
                   else
                     bnd (attempt (resolveRecipient e phoneNumber recipientInput)) (\<lambda>resolved.
                       case resolved of
                         Inl error \<Rightarrow> ret (HFail (ErrorText error))
                       | Inr recipient \<Rightarrow>
                           bnd (static_call ''stateService.setState'') (\<lambda>saved.
                           bnd (static_call ''whatsappService.sendMessage'') (\<lambda>sent.
                           ret HOk))))))
       (\<lambda>error. ret (HFail (ErrorText error)))"

definition executeSend :: "env \<Rightarrow> string \<Rightarrow> jsval \<Rightarrow> hresult io" where
  \<comment> \<open>the payload \<open>state.data\<close> is taken apart, which throws when it is \<open>undefined\<close> or \<open>null\<close>;
      then the user is asked for. The \<open>catch\<close> block calls \<open>clearState\<close> before it returns the
      failure.\<close>
  "executeSend e phoneNumber state =
     try_catch
       (bnd (field state ''data'') (\<lambda>data.
        bnd (field data ''amount'') (\<lambda>amount.
        bnd (static_call ''userService.getByPhone'') (\<lambda>user.
        let amountMicroStx = js_get data ''amountMicroStx'';
            recipient = js_get data ''recipient'';
            senderAddress = js_get data ''senderAddress''
        in
        bnd (field recipient ''isContact'') (\<lambda>isContact.
        let recipientPhone =
              (if truthy isContact \<and> truthy (js_get recipient ''phone'')
               then js_get recipient ''phone'' else JNull)
        in
        bnd (static_call ''whatsappService.sendMessage'') (\<lambda>sent.
        bnd (field user ''private_key'') (\<lambda>senderKey.
        if \<not> truthy senderKey then throw PrivateKeyNotAvailable
        else
          bnd (sendTransaction e senderAddress senderKey (JStr phoneNumber)
                 (js_get recipient ''address'') recipientPhone amountMicroStx) (\<lambda>txId.
          bnd (static_call ''stateService.clearState'') (\<lambda>cleared.
          bnd (static_call ''whatsappService.sendMessage'') (\<lambda>sent'.
          if truthy recipientPhone
          then bnd (static_call ''userService.getByPhone'') (\<lambda>recipientUser.
                 if truthy recipientUser
                 then bnd (static_call ''whatsappService.sendMessage'') (\<lambda>told. ret HOk)
                 else ret HOk)
          else ret HOk))))))))))
       (\<lambda>error.
          bnd (static_call ''stateService.clearState'') (\<lambda>cleared.
          ret (HFail (Failed Send error))))"

definition payment_handleStateFlow :: "env \<Rightarrow> string \<Rightarrow> string \<Rightarrow> jsval \<Rightarrow> hresult io" where
  "payment_handleStateFlow e phoneNumber message state =
     try_catch
       (let normalizedMessage = trim (toLowerCase message) in
        bnd (field state ''step'') (\<lambda>step.
          if step = JStr ''confirm_send'' then
            (if normalizedMessage = ''yes'' then executeSend e phoneNumber state
             else if normalizedMessage = ''no'' then
               bnd (static_call ''stateService.clearState'') (\<lambda>cleared.
               bnd (static_call ''whatsappService.sendMessage'') (\<lambda>sent.
               ret HOk))
             else
               bnd (static_call ''whatsappService.sendMessage'') (\<lambda>sent.
               ret HOk))
          else ret HNull))
       (\<lambda>error.
          bnd (static_call ''stateService.clearState'') (\<lambda>cleared.
          ret (HFail (ErrorText error))))"

definition payment_handleMessage :: "env \<Rightarrow> string \<Rightarrow> string \<Rightarrow> hresult io" where
  "payment_handleMessage e phoneNumber message =
     try_catch
       (let normalizedMessage = trim (toLowerCase message) in
        bnd (static_call ''userService.getByPhone'') (\<lambda>user.
          if \<not> truthy user then ret (HFail NeedRegistration)
          else
            bnd (static_call ''stateService.getState'') (\<lambda>state.
              if truthy state \<and> js_get state ''handler'' = JStr ''payment''
                then payment_handleStateFlow e phoneNumber message state
              else if normalizedMessage = ''balance'' then handleBalance e phoneNumber user
              else if normalizedMessage = ''history'' \<or> startsWith normalizedMessage ''history''
                then handleHistory phoneNumber user
              else if normalizedMessage = ''contacts'' \<or> normalizedMessage = ''list contacts''
                then handleListContacts phoneNumber
              else if startsWith normalizedMessage ''add contact''
                then handleAddContact e phoneNumber message
              else if startsWith normalizedMessage ''send'' then handleSend e phoneNumber message user
              else ret HNull)))
       (\<lambda>error. ret (HFail (HandlerError error)))"

subsection \<open>escrow.handler.js\<close>

definition handleCreateEscrow :: "env \<Rightarrow> string \<Rightarrow> string \<Rightarrow> jsval \<Rightarrow> hresult io" where
  \<comment> \<open>the call of \<open>setState\<close> has the arguments \<open>'escrow'\<close>, \<open>'confirm_create'\<close> and the payload
      with amount, recipient, sender address and timeout\<close>
  "handleCreateEscrow e phoneNumber message user =
     try_catch
       (case rx_search escrow_rx message of
          None \<Rightarrow> ret (HFail (InvalidFormat Create))
        | Some escrowMatch \<Rightarrow>
            let amount = parseFloat (group escrowMatch 1);
                recipientInput = trim (group escrowMatch 2);
                timeValue = parseInt (group escrowMatch 3);
                timeUnit = toLowerCase (group escrowMatch 4)
            in if amount \<le> 0 then ret (HFail AmountNotPositive)
               else
                 let timeoutBlocks =
                       (if startsWith timeUnit ''hour'' then js_mul timeValue 6
                        else js_mul timeValue 144)
                 in
                 bnd (field user ''stx_address'') (\<lambda>address.
                 bnd (getBalance e address) (\<lambda>balanceStx.
                   let totalNeeded = js_add amount (fee_mediumStx e) in
                   if balanceStx < totalNeeded then ret (HFail InsufficientBalance)
                   else
                     bnd (attempt (resolveRecipient e phoneNumber recipientInput)) (\<lambda>resolved.
                       case resolved of
                         Inl error \<Rightarrow> ret (HFail (ErrorText error))
                       | Inr recipient \<Rightarrow>
                           bnd (static_call ''stateService.setState'') (\<lambda>saved.
                           bnd (static_call ''whatsappService.sendMessage'') (\<lambda>sent.
                           ret HOk))))))
       (\<lambda>error. ret (HFail (ErrorText error)))"

definition find_escrow :: "escrow_row list \<Rightarrow> rat \<Rightarrow> escrow_row option" where
  \<comment> \<open>\<open>escrows.find(e => e.contract_escrow_id === escrowId)\<close>\<close>
  "find_escrow rows escrowId = find (has_contract_id (JNum escrowId)) rows"

definition handleReleaseEscrow :: "env \<Rightarrow> string \<Rightarrow> string \<Rightarrow> jsval \<Rightarrow> hresult io" where
  \<comment> \<open>the payload of the call of \<open>setState\<close> holds \<open>user.stx_address\<close>\<close>
  "handleReleaseEscrow e phoneNumber message user =
     try_catch
       (case rx_search (escrow_id_rx ''release'') message of
          None \<Rightarrow> ret (HFail (InvalidFormat Release))
        | Some match \<Rightarrow>
            let escrowId = parseInt (group match 1) in
            bnd (getEscrowsByPhone phoneNumber ''all'') (\<lambda>escrows.
              case find_escrow escrows escrowId of
                None \<Rightarrow> ret (HFail (EscrowNotFound Release escrowId))
              | Some escrow \<Rightarrow>
                  if sender_phone escrow \<noteq> JStr phoneNumber \<and> recipient_phone escrow \<noteq> JStr phoneNumber
                    then ret (HFail NotAuthorized)
                  else if status escrow \<noteq> ''active''
                    then ret (HFail (NotActive Release (status escrow)))
                  else
                    bnd (field user ''stx_address'') (\<lambda>address.
                    bnd (static_call ''stateService.setState'') (\<lambda>saved.
                    bnd (static_call ''whatsappService.sendMessage'') (\<lambda>sent.
                    ret HOk)))))
       (\<lambda>error. ret (HFail (ErrorText error)))"

definition handleRefundEscrow :: "env \<Rightarrow> string \<Rightarrow> string \<Rightarrow> jsval \<Rightarrow> hresult io" where
  "handleRefundEscrow e phoneNumber message user =
     try_catch
       (case rx_search (escrow_id_rx ''refund'') message of
          None \<Rightarrow> ret (HFail (InvalidFormat Refund))
        | Some match \<Rightarrow>
            let escrowId = parseInt (group match 1) in
            bnd (getEscrowsByPhone phoneNumber ''sender'') (\<lambda>escrows.
              case find_escrow escrows escrowId of
                None \<Rightarrow> ret (HFail (EscrowNotFound Refund escrowId))
              | Some escrow \<Rightarrow>
                  if status escrow \<noteq> ''active''
                    then ret (HFail (NotActive Refund (status escrow)))
                  else if \<not> canRefund e (JNum escrowId) then ret (HFail (TimeoutNotReached escrowId))
                  else
                    bnd (field user ''stx_address'') (\<lambda>address.
                    bnd (static_call ''stateService.setState'') (\<lambda>saved.
                    bnd (static_call ''whatsappService.sendMessage'') (\<lambda>sent.
                    ret HOk)))))
       (\<lambda>error. ret (HFail (ErrorText error)))"

definition handleCancelEscrow :: "env \<Rightarrow> string \<Rightarrow> string \<Rightarrow> jsval \<Rightarrow> hresult io" where
  "handleCancelEscrow e phoneNumber message user =
     try_catch
       (case rx_search (escrow_id_rx ''cancel'') message of
          None \<Rightarrow> ret (HFail (InvalidFormat Cancel))
        | Some match \<Rightarrow>
            let escrowId = parseInt (group match 1) in
            bnd (getEscrowsByPhone phoneNumber ''sender'') (\<lambda>escrows.
              case find_escrow escrows escrowId of
                None \<Rightarrow> ret (HFail (EscrowNotFound Cancel escrowId))
              | Some escrow \<Rightarrow>
                  if status escrow \<noteq> ''active''
                    then ret (HFail (NotActive Cancel (status escrow)))
                  else
                    bnd (field user ''stx_address'') (\<lambda>address.
                    bnd (static_call ''stateService.setState'') (\<lambda>saved.
                    bnd (static_call ''whatsappService.sendMessage'') (\<lambda>sent.
                    ret HOk)))))
       (\<lambda>error. ret (HFail (ErrorText error)))"

definition handleEscrowStatus :: "string \<Rightarrow> string \<Rightarrow> hresult io" where
  "handleEscrowStatus phoneNumber message =
     try_catch
       (case rx_search escrow_status_rx message of
          None \<Rightarrow> ret (HFail (InvalidFormat Status))
        | Some match \<Rightarrow>
            let escrowId = parseInt (group match 1) in
            bnd (getEscrowsByPhone phoneNumber ''all'') (\<lambda>escrows.
              case find_escrow escrows escrowId of
                None \<Rightarrow> ret (HFail (EscrowNotFound Status escrowId))
              | Some escrow \<Rightarrow>
                  bnd (static_call ''whatsappService.sendMessage'') (\<lambda>sent.
                  ret HOk)))
       (\<lambda>error. ret (HFail (ErrorText error)))"

definition handleListEscrows :: "string \<Rightarrow> hresult io" where
  \<comment> \<open>the list of escrows, or the text for an empty list, is sent\<close>
  "handleListEscrows phoneNumber =
     try_catch
       (bnd (getEscrowsByPhone phoneNumber ''all'') (\<lambda>escrows.
        bnd (static_call ''whatsappService.sendMessage'') (\<lambda>sent.
        ret HOk)))
       (\<lambda>error. ret (HFail (Info ''Failed to get escrows'')))"

definition executeCreateEscrow :: "env \<Rightarrow> string \<Rightarrow> jsval \<Rightarrow> hresult io" where
  "executeCreateEscrow e phoneNumber state =
     try_catch
       (bnd (field state ''data'') (\<lambda>data.
        bnd (field data ''amount'') (\<lambda>amount.
        bnd (static_call ''userService.getByPhone'') (\<lambda>user.
        bnd (field user ''private_key'') (\<lambda>senderKey.
        if \<not> truthy senderKey then throw PrivateKeyNotAvailable
        else
          let recipient = js_get data ''recipient'' in
          bnd (static_call ''whatsappService.sendMessage'') (\<lambda>sent.
          bnd (field recipient ''address'') (\<lambda>recipientAddress.
          bnd (createEscrow e (js_get data ''senderAddress'') senderKey recipientAddress
                 (js_get data ''amountMicroStx'') (js_get data ''timeoutBlocks'') ''Escrow via WhatsApp''
                 (JStr phoneNumber)
                 (if truthy (js_get recipient ''phone'') then js_get recipient ''phone'' else JNull))
            (\<lambda>result.
          bnd (static_call ''stateService.clearState'') (\<lambda>cleared.
          bnd (static_call ''whatsappService.sendMessage'') (\<lambda>sent'.
          if truthy (js_get recipient ''phone'')
          then bnd (static_call ''userService.getByPhone'') (\<lambda>recipientUser.
                 if truthy recipientUser
                 then bnd (static_call ''whatsappService.sendMessage'') (\<lambda>told. ret HOk)
                 else ret HOk)
          else ret HOk))))))))))
       (\<lambda>error.
          bnd (static_call ''stateService.clearState'') (\<lambda>cleared.
          ret (HFail (Failed Create error))))"

definition execute_operation ::
  "action \<Rightarrow> string \<Rightarrow> (env \<Rightarrow> jsval \<Rightarrow> jsval \<Rightarrow> jsval \<Rightarrow> string io) \<Rightarrow> env \<Rightarrow> string \<Rightarrow> jsval
     \<Rightarrow> hresult io" where
  \<comment> \<open>the statements that \<open>executeReleaseEscrow\<close>, \<open>executeRefundEscrow\<close> and
      \<open>executeCancelEscrow\<close> share; \<open>addressField\<close> is the field of the payload with the caller's
      address\<close>
  "execute_operation a addressField operation e phoneNumber state =
     try_catch
       (bnd (field state ''data'') (\<lambda>data.
        bnd (field data ''escrowId'') (\<lambda>escrowId.
        bnd (static_call ''userService.getByPhone'') (\<lambda>user.
        bnd (field user ''private_key'') (\<lambda>userKey.
        if \<not> truthy userKey then throw PrivateKeyNotAvailable
        else
          bnd (static_call ''whatsappService.sendMessage'') (\<lambda>sent.
          bnd (operation e escrowId (js_get data addressField) userKey) (\<lambda>result.
          bnd (static_call ''stateService.clearState'') (\<lambda>cleared.
          bnd (static_call ''whatsappService.sendMessage'') (\<lambda>sent'.
          ret HOk)))))))))
       (\<lambda>error.
          bnd (static_call ''stateService.clearState'') (\<lambda>cleared.
          ret (HFail (Failed a error))))"

definition executeReleaseEscrow :: "env \<Rightarrow> string \<Rightarrow> jsval \<Rightarrow> hresult io" where
  "executeReleaseEscrow = execute_operation Release ''userAddress'' releaseEscrow"

definition executeRefundEscrow :: "env \<Rightarrow> string \<Rightarrow> jsval \<Rightarrow> hresult io" where
  "executeRefundEscrow = execute_operation Refund ''senderAddress'' refundEscrow"

definition executeCancelEscrow :: "env \<Rightarrow> string \<Rightarrow> jsval \<Rightarrow> hresult io" where
  "executeCancelEscrow = execute_operation Cancel ''senderAddress'' cancelEscrow"

definition escrow_handleStateFlow :: "env \<Rightarrow> string \<Rightarrow> string \<Rightarrow> jsval \<Rightarrow> hresult io" where
  "escrow_handleStateFlow e phoneNumber message state =
     try_catch
       (let normalizedMessage = trim (toLowerCase message) in
        if normalizedMessage \<noteq> ''yes'' \<and> normalizedMessage \<noteq> ''no'' then
          bnd (static_call ''whatsappService.sendMessage'') (\<lambda>sent.
          ret HOk)
        else if normalizedMessage = ''no'' then
          bnd (static_call ''stateService.clearState'') (\<lambda>cleared.
          bnd (static_call ''whatsappService.sendMessage'') (\<lambda>sent.
          ret HOk))
        else
          bnd (field state ''step'') (\<lambda>step.
            if step = JStr ''confirm_create'' then executeCreateEscrow e phoneNumber state
            else if step = JStr ''confirm_release'' then executeReleaseEscrow e phoneNumber state
            else if step = JStr ''confirm_refund'' then executeRefundEscrow e phoneNumber state
            else if step = JStr ''confirm_cancel'' then executeCancelEscrow e phoneNumber state
            else ret HNull))
       (\<lambda>error.
          bnd (static_call ''stateService.clearState'') (\<lambda>cleared.
          ret (HFail (ErrorText error))))"

definition escrow_handleMessage :: "env \<Rightarrow> string \<Rightarrow> string \<Rightarrow> hresult io" where
  "escrow_handleMessage e phoneNumber message =
     try_catch
       (let normalizedMessage = trim (toLowerCase message) in
        bnd (static_call ''userService.getByPhone'') (\<lambda>user.
          if \<not> truthy user then ret (HFail NeedRegistration)
          else
            bnd (static_call ''stateService.getState'') (\<lambda>state.
              if truthy state \<and> js_get state ''handler'' = JStr ''escrow''
                then escrow_handleStateFlow e phoneNumber message state
              else if startsWith normalizedMessage ''escrow'' \<and> \<not> includes_str normalizedMessage ''status''
                then handleCreateEscrow e phoneNumber message user
              else if startsWith normalizedMessage ''release escrow''
                then handleReleaseEscrow e phoneNumber message user
              else if startsWith normalizedMessage ''refund escrow''
                then handleRefundEscrow e phoneNumber message user
              else if startsWith normalizedMessage ''cancel escrow''
                then handleCancelEscrow e phoneNumber message user
              else if includes_str normalizedMessage ''escrow status''
                then handleEscrowStatus phoneNumber message
              else if normalizedMessage = ''my escrows'' \<or> normalizedMessage = ''escrows''
                then handleListEscrows phoneNumber
              else ret HNull)))
       (\<lambda>error. ret (HFail (HandlerError error)))"

subsection \<open>webhook.ts\<close>

text \<open>
  \<open>processMessage\<close> sends what the handler returned: nothing for \<open>{success: true}\<close>, the message
  of a failure, the unknown-command text for \<open>null\<close>. Its \<open>catch\<close> block sends the text that
  something went wrong, by a call that throws in its turn: then \<open>processMessage\<close> throws, and the
  webhook answers the request that brought the message with the error. \<open>run\<close> is a conversation: the
  messages, each with its sender, handled one after the other.
\<close>

definition sendHelpMessage :: "string \<Rightarrow> unit io" where
  \<comment> \<open>the text depends on whether the user is registered; an exception is caught and logged\<close>
  "sendHelpMessage phoneNumber =
     try_catch
       (bnd (static_call ''userService.getByPhone'') (\<lambda>user.
          if \<not> truthy user
          then bnd (static_call ''whatsappService.sendMessage'') (\<lambda>sent. ret ())
          else
            bnd (string_method (js_get user ''stx_address'') ''substring'') (\<lambda>u.
            bnd (static_call ''whatsappService.sendMessage'') (\<lambda>sent. ret ()))))
       (\<lambda>error. ret ())"

definition deliver :: "string \<Rightarrow> hresult \<Rightarrow> unit io" where
  "deliver phoneNumber result =
     (case result of
        HNull \<Rightarrow> bnd (static_call ''whatsappService.sendMessage'') (\<lambda>sent. ret ())
      | HOk \<Rightarrow> ret ()
      | HFail msg \<Rightarrow> bnd (static_call ''whatsappService.sendMessage'') (\<lambda>sent. ret ()))"

definition is_escrow_command :: "string \<Rightarrow> bool" where
  "is_escrow_command normalizedMessage =
     (startsWith normalizedMessage ''escrow'' \<or> startsWith normalizedMessage ''release escrow''
      \<or> startsWith normalizedMessage ''refund escrow'' \<or> startsWith normalizedMessage ''cancel escrow''
      \<or> includes_str normalizedMessage ''escrow status'' \<or> normalizedMessage = ''my escrows''
      \<or> normalizedMessage = ''escrows'')"

definition processMessage :: "env \<Rightarrow> string \<Rightarrow> string \<Rightarrow> unit io" where
  "processMessage e phoneNumber messageText =
     try_catch
       (let normalizedMessage = trim (toLowerCase messageText) in
        if normalizedMessage = ''help'' \<or> normalizedMessage = ''menu'' then sendHelpMessage phoneNumber
        else
          bnd (static_call ''userService.getByPhone'') (\<lambda>user.
            if falsy user \<or> startsWith normalizedMessage ''register'' then
              bnd (static_call ''registrationHandler.handleMessage'') (\<lambda>result.
                if truthy result \<and> truthy (js_get result ''message'')
                then bnd (static_call ''whatsappService.sendMessage'') (\<lambda>sent. ret ())
                else ret ())
            else if is_escrow_command normalizedMessage then
              bnd (escrow_handleMessage e phoneNumber messageText) (\<lambda>result.
                deliver phoneNumber result)
            else
              bnd (payment_handleMessage e phoneNumber messageText) (\<lambda>result.
                deliver phoneNumber result)))
       (\<lambda>error. bnd (static_call ''whatsappService.sendMessage'') (\<lambda>sent. ret ()))"

fun run :: "env \<Rightarrow> (string \<times> string) list \<Rightarrow> world \<Rightarrow> world" where
  "run e [] w = w"
| "run e ((phoneNumber, messageText) # ms) w = run e ms (snd (processMessage e phoneNumber messageText w))"

datatype operation =
    Message string string
  | CreateEscrow jsval jsval jsval jsval jsval string jsval jsval
  | ReleaseEscrow jsval jsval jsval
  | RefundEscrow jsval jsval jsval
  | CancelEscrow jsval jsval jsval
  | UpdateEscrowStatus jsval string string

fun perform :: "env \<Rightarrow> operation \<Rightarrow> world \<Rightarrow> world" where
  \<comment> \<open>a message to the webhook, or a call of an operation of the escrow service\<close>
  "perform e (Message phoneNumber messageText) w = snd (processMessage e phoneNumber messageText w)"
| "perform e (CreateEscrow a k r n t m p q) w = snd (createEscrow e a k r n t m p q w)"
| "perform e (ReleaseEscrow i a k) w = snd (releaseEscrow e i a k w)"
| "perform e (RefundEscrow i a k) w = snd (refundEscrow e i a k w)"
| "perform e (CancelEscrow i a k) w = snd (cancelEscrow e i a k w)"
| "perform e (UpdateEscrowStatus i s t) w = snd (updateEscrowStatus i s t w)"

definition perform_all :: "env \<Rightarrow> operation list \<Rightarrow> world \<Rightarrow> world" where
  "perform_all e ops w = fold (perform e) ops w"

section \<open>Scenarios\<close>

text \<open>
  The inputs of the end-to-end scenarios: a registered user \<open>U1\<close> on the main network, an
  address \<open>A\<close>, which is that of a second user \<open>U2\<close>, and a third phone number. The Stacks API
  knows the accounts of \<open>U1\<close> and \<open>U2\<close>, with 10 STX each, and fails for every other request; the
  timeout of no escrow is reached. The worlds hold the rows that the scenarios start from, put
  into the store as they are.
\<close>

definition phone_U1 :: string where
  "phone_U1 = ''+2349012345678''"

definition phone_U2 :: string where
  "phone_U2 = ''+2348012345678''"

definition phone_U3 :: string where
  "phone_U3 = ''+2347012345678''"

definition short_address :: string where
  \<comment> \<open>\<open>SP\<close> and 38 characters\<close>
  "short_address = ''SP'' @ replicate 38 CHR ''0''"

definition address_U1 :: string where
  "address_U1 = ''SP3FBR2AGK5H9QBDH3EEN6DF8EK8JY7RX8QJ5SVTE''"

definition address_A :: string where
  "address_A = ''SP2J6ZY48GV1EZ5V2V5RB9MP66SW86PYKKNRV9EJ7''"

definition address_U3 :: string where
  "address_U3 = ''SP1P72Z3704VMT3DMHPP2CB8TGQWGDBHD3RPR9GZS''"

definition scenario_env :: env where
  "scenario_env =
     \<lparr>network = ''mainnet'',
      balance_of = (\<lambda>a. if a = JStr address_U1 \<or> a = JStr address_A then Some 10 else None),
      fee_mediumStx = js_div 250 1000000,
      account_nonce = (\<lambda>a. if a = JStr address_U1 \<or> a = JStr address_A then Some 0 else None),
      can_refund = (\<lambda>i. False),
      broadcast_result = (\<lambda>c. Inr ''0xabc'')\<rparr>"

definition empty_world :: world where
  "empty_world =
     \<lparr>users = [], contacts = [], states = [], escrows = [], transactions = [], outbox = [],
      chain_log = [], clock = 0\<rparr>"

definition registered_world :: world where
  \<comment> \<open>\<open>U1\<close> and \<open>U2\<close> are registered\<close>
  "registered_world =
     empty_world\<lparr>users := [\<lparr>phone_number = phone_U1, stx_address = address_U1\<rparr>,
                            \<lparr>phone_number = phone_U2, stx_address = address_A\<rparr>]\<rparr>"

definition user_U1 :: jsval where
  \<comment> \<open>the row of \<open>U1\<close> as an object, which is what the handlers read of a user\<close>
  "user_U1 = JObj [(''phone_number'', JStr phone_U1), (''stx_address'', JStr address_U1)]"

definition contact_world :: world where
  \<comment> \<open>\<open>U1\<close> has the contact John with address \<open>A\<close>\<close>
  "contact_world =
     registered_world\<lparr>contacts := [\<lparr>contact_id = 1, user_phone = phone_U1, contact_name = ''John'',
                     contact_stx_address = address_A, contact_phone = None\<rparr>]\<rparr>"

definition payment_state :: jsval where
  \<comment> \<open>the state that \<open>handleSend\<close> means to stage for "send 5 to John", as the object that the
      state flow reads\<close>
  "payment_state =
     JObj [(''handler'', JStr ''payment''), (''step'', JStr ''confirm_send''),
           (''data'', JObj [(''amount'', JNum 5), (''amountMicroStx'', JNum 5000000),
                            (''recipient'', JObj [(''type'', JStr ''contact''), (''address'', JStr address_A),
                                                  (''name'', JStr ''John''), (''phone'', JNull),
                                                  (''isContact'', JBool True), (''contactId'', JNum 1)]),
                            (''senderAddress'', JStr address_U1)])]"

definition escrow_1 :: "string \<Rightarrow> escrow_row" where
  \<comment> \<open>the escrow with contract id 1 from \<open>U1\<close> to \<open>U2\<close>, in the given status\<close>
  "escrow_1 st =
     \<lparr>escrow_id = 1, sender_phone = JStr phone_U1, sender_stx_address = JStr address_U1,
      recipient_phone = JStr phone_U2, recipient_stx_address = JStr address_A,
      amount_microstx = JNum 5000000, timeout_blocks = JNum 144, memo = ''Escrow via WhatsApp'',
      tx_id = ''0x01'', contract_escrow_id = Some 1, status = st, release_tx_id = None\<rparr>"

definition escrow_world :: "string \<Rightarrow> world" where
  "escrow_world st = contact_world\<lparr>escrows := [escrow_1 st]\<rparr>"

definition release_state :: jsval where
  \<comment> \<open>the state that \<open>handleReleaseEscrow\<close> means to stage for "release escrow #1"\<close>
  "release_state =
     JObj [(''handler'', JStr ''escrow''), (''step'', JStr ''confirm_release''),
           (''data'', JObj [(''escrowId'', JNum 1), (''escrow'', escrow_obj (escrow_1 ''active'')),
                            (''userAddress'', JStr address_U1)])]"

definition staged_row :: "jsval \<Rightarrow> state_row" where
  \<comment> \<open>a row of the table of conversation states that holds the state, not yet expired\<close>
  "staged_row state = \<lparr>state_type = js_get state ''handler'', state_data = state, expires_at = 600000\<rparr>"

definition staged_world :: "jsval \<Rightarrow> world" where
  \<comment> \<open>the escrow 1 is active and \<open>U1\<close> has the conversation state\<close>
  "staged_world state = (escrow_world ''active'')\<lparr>states := [(phone_U1, staged_row state)]\<rparr>"

section \<open>Properties of the string functions\<close>

lemma upper_char_idem: "upper_char (upper_char c) = upper_char c"
  by (auto simp: upper_char_def is_small_def Let_def)

lemma lower_char_idem: "lower_char (lower_char c) = lower_char c"
  by (auto simp: lower_char_def is_capital_def Let_def)

lemma upper_char_space: "upper_char c = CHR '' '' \<longleftrightarrow> c = CHR '' ''"
  by (auto simp: upper_char_def is_small_def Let_def char_of_eq_iff take_bit_eq_mod)

lemma lower_char_space: "lower_char c = CHR '' '' \<longleftrightarrow> c = CHR '' ''"
  by (auto simp: lower_char_def is_capital_def Let_def char_of_eq_iff take_bit_eq_mod)

lemma is_space_upper_char: "is_space (upper_char c) = is_space c"
  by (auto simp: upper_char_def is_small_def is_space_def Let_def)

lemma is_space_lower_char: "is_space (lower_char c) = is_space c"
  by (auto simp: lower_char_def is_capital_def is_space_def Let_def)

lemma single_case_upper_char: "single_case c \<Longrightarrow> single_case (upper_char c)"
  by (auto simp: upper_char_def is_small_def single_case_def Let_def char_of_eq_iff take_bit_eq_mod)

lemma single_case_lower_char: "single_case c \<Longrightarrow> single_case (lower_char c)"
  by (auto simp: lower_char_def is_capital_def single_case_def Let_def char_of_eq_iff take_bit_eq_mod)

lemma upper_units_single: "single_case c \<Longrightarrow> upper_units c = [upper_char c]"
  by (auto simp: upper_units_def single_case_def)


lemma split_on_ne: "split_on d s \<noteq> []"
  by (induction s) (auto split: list.splits)

lemma join_with_Cons: "join_with d ((x # w) # ws) = x # join_with d (w # ws)"
  by (cases ws) auto

lemma join_with_Nil_Cons: "ws \<noteq> [] \<Longrightarrow> join_with d ([] # ws) = d # join_with d ws"
  by (cases ws) auto

lemma capitalize_Nil: "capitalize [] = []"
  by (simp add: capitalize_def toUpperCase_def toLowerCase_def)

lemma capitalize_Cons:
  "single_case c \<Longrightarrow> capitalize (c # w) = upper_char c # map lower_char w"
  by (simp add: capitalize_def toUpperCase_def toLowerCase_def upper_units_single)

lemma join_first_word:
  "\<forall>c\<in>set s. single_case c \<Longrightarrow> split_on CHR '' '' s = w # ws \<Longrightarrow>
   join_with CHR '' '' ((if b then capitalize w else map lower_char w) # map capitalize ws)
     = title_pass b s"
proof (induction s arbitrary: b w ws)
  case Nil
  then show ?case by (auto simp: capitalize_Nil)
next
  case (Cons c cs)
  obtain w' ws' where sp: "split_on CHR '' '' cs = w' # ws'"
    using split_on_ne [of "CHR '' ''" cs] by (cases "split_on CHR '' '' cs") auto
  have asc: "\<forall>c\<in>set cs. single_case c" "single_case c" using Cons.prems(1) by auto
  show ?case
  proof (cases "c = CHR '' ''")
    case True
    then have "w = []" "ws = w' # ws'" using Cons.prems(2) sp by auto
    moreover have "join_with CHR '' '' (capitalize w' # map capitalize ws') = title_pass True cs"
      using Cons.IH [OF asc(1) sp, of True] by simp
    ultimately show ?thesis using True by (simp add: capitalize_Nil)
  next
    case False
    then have w: "w = c # w'" "ws = ws'" using Cons.prems(2) sp by auto
    have "join_with CHR '' '' (map lower_char w' # map capitalize ws') = title_pass False cs"
      using Cons.IH [OF asc(1) sp, of False] by simp
    then show ?thesis using False w asc(2)
      by (simp add: capitalize_Cons join_with_Cons)
  qed
qed

lemma join_cap_split:
  assumes "\<forall>c\<in>set s. single_case c"
  shows "join_with CHR '' '' (map capitalize (split_on CHR '' '' s)) = title_pass True s"
proof -
  obtain w ws where sp: "split_on CHR '' '' s = w # ws"
    using split_on_ne [of "CHR '' ''" s] by (cases "split_on CHR '' '' s") auto
  show ?thesis using join_first_word [OF assms sp, of True] sp by simp
qed

lemma title_pass_idem: "title_pass b (title_pass b s) = title_pass b s"
  by (induction s arbitrary: b)
     (auto simp: upper_char_idem lower_char_idem upper_char_space lower_char_space)

lemma title_pass_length: "length (title_pass b s) = length s"
  by (induction s arbitrary: b) auto

lemma title_pass_spaces: "map is_space (title_pass b s) = map is_space s"
  by (induction s arbitrary: b) (auto simp: is_space_upper_char is_space_lower_char)

lemma title_pass_single: "\<forall>c\<in>set s. single_case c \<Longrightarrow> \<forall>c\<in>set (title_pass b s). single_case c"
  by (induction s arbitrary: b) (auto simp: single_case_upper_char single_case_lower_char)

lemma trim_trimmed:
  assumes "trimmed s"
  shows "trim s = s"
proof (cases "s = []")
  case True then show ?thesis by (simp add: trim_def)
next
  case False
  then have h: "\<not> is_space (hd s)" and l: "\<not> is_space (last s)"
    using assms by (auto simp: trimmed_def)
  have 1: "dropWhile is_space s = s" using h by (simp add: dropWhile_eq_self_iff)
  have "\<not> is_space (hd (rev s))" using l by (simp add: hd_rev)
  then have 2: "dropWhile is_space (rev s) = rev s" by (simp add: dropWhile_eq_self_iff)
  show ?thesis by (simp add: trim_def 1 2)
qed

lemma trimmed_trim: "trimmed (trim s)"
proof (cases "trim s = []")
  case True then show ?thesis by (simp add: trimmed_def)
next
  case False
  define u where "u = dropWhile is_space s"
  define v where "v = dropWhile is_space (rev u)"
  have t: "trim s = rev v" by (simp add: trim_def u_def v_def)
  have vne: "v \<noteq> []" using False t by simp
  have "\<not> is_space (hd v)" using hd_dropWhile [of is_space "rev u"] vne by (simp add: v_def)
  then have l: "\<not> is_space (last (trim s))" by (simp add: t last_rev)
  have "suffix v (rev u)" unfolding v_def by (rule suffix_dropWhile)
  then have "prefix (rev v) u" by (simp add: suffix_to_prefix)
  then obtain zs where u: "u = rev v @ zs" by (auto simp: prefix_def)
  have une: "u \<noteq> []" using u vne by simp
  have "hd u = hd (rev v)" using u vne by simp
  moreover have "\<not> is_space (hd u)" using hd_dropWhile [of is_space s] une by (simp add: u_def)
  ultimately have "\<not> is_space (hd (trim s))" by (simp add: t)
  with l show ?thesis by (simp add: trimmed_def)
qed

lemma trimmed_title_pass: "trimmed s \<Longrightarrow> trimmed (title_pass b s)"
proof -
  assume t: "trimmed s"
  have m: "map is_space (title_pass b s) = map is_space s" by (rule title_pass_spaces)
  show ?thesis
  proof (cases "s = []")
    case True then show ?thesis by (simp add: trimmed_def)
  next
    case False
    then have ne: "title_pass b s \<noteq> []" using title_pass_length [of b s] by auto
    have "is_space (hd (title_pass b s)) = is_space (hd s)"
      using hd_map [OF ne, of is_space] hd_map [OF False, of is_space] m by simp
    moreover have "is_space (last (title_pass b s)) = is_space (last s)"
      using last_map [OF ne, of is_space] last_map [OF False, of is_space] m by simp
    ultimately show ?thesis using t False by (simp add: trimmed_def)
  qed
qed

lemma trim_single: "\<forall>c\<in>set s. single_case c \<Longrightarrow> \<forall>c\<in>set (trim s). single_case c"
  by (auto simp: trim_def dest!: set_dropWhileD)

lemma normalizeContactName_title_pass:
  "\<forall>c\<in>set s. single_case c \<Longrightarrow> normalizeContactName s = title_pass True (trim s)"
  by (simp add: normalizeContactName_def join_cap_split trim_single)

text \<open>
  Claim C10, as amended: for every name of code units below 256 without the sharp s (U+00DF),
  the micro sign (U+00B5) and U+00FF, normalising a second time changes nothing. Every ASCII
  name is such a name, with non-breaking spaces and accented letters too.
\<close>

theorem normalizeContactName_idempotent_single_case:
  assumes "\<forall>c\<in>set s. single_case c"
  shows "normalizeContactName (normalizeContactName s) = normalizeContactName s"
proof -
  let ?t = "trim s"
  have a: "\<forall>c\<in>set ?t. single_case c" using assms by (rule trim_single)
  have n: "normalizeContactName s = title_pass True ?t"
    using assms by (rule normalizeContactName_title_pass)
  have a2: "\<forall>c\<in>set (title_pass True ?t). single_case c" using a by (rule title_pass_single)
  have "trimmed (title_pass True ?t)" using trimmed_trim by (rule trimmed_title_pass)
  then have tr: "trim (title_pass True ?t) = title_pass True ?t" by (rule trim_trimmed)
  have "normalizeContactName (title_pass True ?t) = title_pass True (title_pass True ?t)"
    using normalizeContactName_title_pass [OF a2] tr by simp
  then show ?thesis by (simp add: n title_pass_idem)
qed

text \<open>
  Claim C10, witness: a name with a non-breaking space in front, repeated spaces, and the
  letters U+00E9 and U+00DC, which become the capital U+00C9 and the small U+00FC.
\<close>

theorem normalizeContactName_idempotent_witness:
  "normalizeContactName (CHR 0xA0 # '' '' @ CHR 0xE9 # ''lodie   M'' @ CHR 0xDC # ''LLER '')
     = CHR 0xC9 # ''lodie   M'' @ CHR 0xFC # ''ller''
   \<and> normalizeContactName (normalizeContactName (CHR 0xA0 # '' '' @ CHR 0xE9 # ''lodie   M'' @ CHR 0xDC # ''LLER ''))
     = normalizeContactName (CHR 0xA0 # '' '' @ CHR 0xE9 # ''lodie   M'' @ CHR 0xDC # ''LLER '')"
proof -
  let ?s = "CHR 0xA0 # '' '' @ CHR 0xE9 # ''lodie   M'' @ CHR 0xDC # ''LLER ''"
  have a: "\<forall>c\<in>set ?s. single_case c" by code_simp
  have b: "normalizeContactName ?s = CHR 0xC9 # ''lodie   M'' @ CHR 0xFC # ''ller''" by code_simp
  show ?thesis using normalizeContactName_idempotent_single_case [OF a] b by (intro conjI)
qed

text \<open>
  Claim C10 as stated (for every string) fails: the upper case of the sharp s is the two
  letters SS, so the name made of U+00DF and a is normalised to SSa, and SSa to Ssa.
\<close>

theorem normalizeContactName_not_idempotent:
  "normalizeContactName [CHR 0xDF, CHR ''a''] = ''SSa''
   \<and> normalizeContactName (normalizeContactName [CHR 0xDF, CHR ''a'']) = ''Ssa''"
  by code_simp

section \<open>Conversion round trips\<close>

text \<open>
  Claim C7 at the input 249: the conversions of formatter.ts and stacks.service.js, which take
  the floor of the product, return 248 microSTX for the STX value of 249 microSTX, since the
  double nearest to 249 / 1000000 times 1000000 is just below 249. The conversion of
  validator.js, which rounds, returns 249.
\<close>

theorem stxToMicroStx_round_trip_249:
  "stxToMicroStx (microStxToStx 249) = 248 \<and> stxToMicroStx_validator (microStxToStx 249) = 249"
  by code_simp

section \<open>What the module bindings entail\<close>

text \<open>
  The laws of the computations, and then, function by function, what is left of a service or a
  handler once the calls on the classes and the reads of \<open>databaseService.client\<close> throw.
\<close>

lemma bnd_ret: "bnd (ret x) f = f x"
  by (rule ext) (simp add: bnd_def ret_def)

lemma bnd_throw: "bnd (throw err) f = throw err"
  by (rule ext) (simp add: bnd_def throw_def)

lemma try_catch_ret: "try_catch (ret x) h = ret x"
  by (rule ext) (simp add: try_catch_def ret_def)

lemma try_catch_throw: "try_catch (throw err) h = h err"
  by (rule ext) (simp add: try_catch_def throw_def)

lemma attempt_ret: "attempt (ret x) = ret (Inr x)"
  by (rule ext) (simp add: attempt_def ret_def)

lemma attempt_throw: "attempt (throw err) = ret (Inl err)"
  by (rule ext) (simp add: attempt_def throw_def ret_def)

lemmas io_simps = bnd_ret bnd_throw try_catch_ret try_catch_throw attempt_ret attempt_throw

lemma static_call_bnd: "bnd (static_call name) f = throw (NotAFunction name)"
  by (simp add: static_call_def io_simps)

lemma database_query_throws: "database_query = throw (PropertyOfNullish ''from'')"
  by (simp add: database_query_def databaseService_client_def field_def nullish_def io_simps)

lemma getContactByName_throws:
  "getContactByName userPhone contactName = throw (Wrap ''Failed to get contact'' (PropertyOfNullish ''from''))"
  by (simp add: getContactByName_def database_query_throws io_simps)

lemma getEscrowsByPhone_throws:
  "getEscrowsByPhone phoneNumber role = throw (Wrap ''Failed to get escrows'' (PropertyOfNullish ''from''))"
  by (simp add: getEscrowsByPhone_def database_query_throws io_simps)

lemma updateEscrowStatus_throws:
  "updateEscrowStatus i s t = throw (Wrap ''Failed to update escrow status'' (PropertyOfNullish ''from''))"
  by (simp add: updateEscrowStatus_def database_query_throws io_simps)


lemma payment_handleMessage_eq:
  "payment_handleMessage e p m = ret (HFail (HandlerError (NotAFunction ''userService.getByPhone'')))"
  by (simp add: payment_handleMessage_def static_call_bnd io_simps)

lemma escrow_handleMessage_eq:
  "escrow_handleMessage e p m = ret (HFail (HandlerError (NotAFunction ''userService.getByPhone'')))"
  by (simp add: escrow_handleMessage_def static_call_bnd io_simps)

lemma sendHelpMessage_eq: "sendHelpMessage p = ret ()"
  by (simp add: sendHelpMessage_def static_call_bnd io_simps)

lemma processMessage_eq:
  "processMessage e p m =
     (if trim (toLowerCase m) = ''help'' \<or> trim (toLowerCase m) = ''menu'' then ret ()
      else throw (NotAFunction ''whatsappService.sendMessage''))"
  by (simp add: processMessage_def Let_def sendHelpMessage_eq static_call_bnd io_simps)

lemma processMessage_world: "snd (processMessage e p m w) = w"
  by (simp add: processMessage_eq ret_def throw_def)

lemma run_eq: "run e ms w = w"
  by (induction ms arbitrary: w) (auto simp: processMessage_world)

lemma executeSend_eq: "executeSend e p st = throw (NotAFunction ''stateService.clearState'')"
  by (simp add: executeSend_def field_def static_call_bnd io_simps)

lemma payment_handleStateFlow_eq:
  "payment_handleStateFlow e p m st =
     (if \<not> nullish st \<and> js_get st ''step'' \<noteq> JStr ''confirm_send'' then ret HNull
      else throw (NotAFunction ''stateService.clearState''))"
  by (simp add: payment_handleStateFlow_def Let_def executeSend_eq field_def static_call_bnd io_simps)

lemma executeCreateEscrow_eq: "executeCreateEscrow e p st = throw (NotAFunction ''stateService.clearState'')"
  by (simp add: executeCreateEscrow_def field_def static_call_bnd io_simps)

lemma execute_operation_eq: "execute_operation a f op e p st = throw (NotAFunction ''stateService.clearState'')"
  by (simp add: execute_operation_def field_def static_call_bnd io_simps)

lemma escrow_handleStateFlow_eq:
  "escrow_handleStateFlow e p m st =
     (if trim (toLowerCase m) = ''yes'' \<and> \<not> nullish st \<and> js_get st ''step'' \<noteq> JStr ''confirm_create''
         \<and> js_get st ''step'' \<noteq> JStr ''confirm_release'' \<and> js_get st ''step'' \<noteq> JStr ''confirm_refund''
         \<and> js_get st ''step'' \<noteq> JStr ''confirm_cancel''
      then ret HNull
      else throw (NotAFunction ''stateService.clearState''))"
  by (simp add: escrow_handleStateFlow_def Let_def executeCreateEscrow_eq execute_operation_eq
      executeReleaseEscrow_def executeRefundEscrow_def executeCancelEscrow_def
      field_def static_call_bnd io_simps)



lemma getContacts_throws:
  "getContacts userPhone = throw (Wrap ''Failed to get contacts'' (PropertyOfNullish ''from''))"
  by (simp add: getContacts_def database_query_throws io_simps)

lemma getTransactionsByPhone_throws:
  "getTransactionsByPhone phoneNumber = throw (Wrap ''Failed to get transactions'' (PropertyOfNullish ''from''))"
  by (simp add: getTransactionsByPhone_def database_query_throws io_simps)

lemma recordTransaction_throws:
  "recordTransaction txId = throw (Wrap ''Failed to record transaction'' (PropertyOfNullish ''from''))"
  by (simp add: recordTransaction_def database_query_throws io_simps)

lemma saveEscrowToDatabase_throws:
  "saveEscrowToDatabase txId = throw (Wrap ''Failed to save escrow'' (PropertyOfNullish ''from''))"
  by (simp add: saveEscrowToDatabase_def database_query_throws io_simps)

lemma addContact_world: "snd (addContact e u n a w) = w"
  by (simp add: addContact_def getContactByName_throws database_query_throws io_simps Let_def throw_def)


lemma handleReleaseEscrow_eq:
  "handleReleaseEscrow e p m u =
     (case rx_search (escrow_id_rx ''release'') m of
        None \<Rightarrow> ret (HFail (InvalidFormat Release))
      | Some caps \<Rightarrow> ret (HFail (ErrorText (Wrap ''Failed to get escrows'' (PropertyOfNullish ''from'')))))"
  by (simp add: handleReleaseEscrow_def Let_def getEscrowsByPhone_throws io_simps split: option.splits)

lemma handleRefundEscrow_eq:
  "handleRefundEscrow e p m u =
     (case rx_search (escrow_id_rx ''refund'') m of
        None \<Rightarrow> ret (HFail (InvalidFormat Refund))
      | Some caps \<Rightarrow> ret (HFail (ErrorText (Wrap ''Failed to get escrows'' (PropertyOfNullish ''from'')))))"
  by (simp add: handleRefundEscrow_def Let_def getEscrowsByPhone_throws io_simps split: option.splits)

lemma handleCancelEscrow_eq:
  "handleCancelEscrow e p m u =
     (case rx_search (escrow_id_rx ''cancel'') m of
        None \<Rightarrow> ret (HFail (InvalidFormat Cancel))
      | Some caps \<Rightarrow> ret (HFail (ErrorText (Wrap ''Failed to get escrows'' (PropertyOfNullish ''from'')))))"
  by (simp add: handleCancelEscrow_def Let_def getEscrowsByPhone_throws io_simps split: option.splits)





lemma handleReleaseEscrow_world: "snd (handleReleaseEscrow e p m u w) = w"
  by (simp add: handleReleaseEscrow_eq ret_def split: option.splits)

lemma payment_handleStateFlow_world: "snd (payment_handleStateFlow e p m st w) = w"
  by (simp add: payment_handleStateFlow_eq ret_def throw_def)

lemma escrow_handleStateFlow_world: "snd (escrow_handleStateFlow e p m st w) = w"
  by (simp add: escrow_handleStateFlow_eq ret_def throw_def)

lemma contract_operation_escrows:
  "escrows (snd (contract_operation f s e i a k w)) = escrows w"
  by (simp add: contract_operation_def getAccountInfo_def broadcast_def updateEscrowStatus_throws
      bnd_def throw_def ret_def split: option.splits sum.splits)

lemma try_catch_rethrow_escrows:
  "escrows (snd (m w)) = escrows w \<Longrightarrow> escrows (snd (try_catch m (\<lambda>error. throw (g error)) w)) = escrows w"
  by (auto simp: try_catch_def throw_def split: prod.splits sum.splits)

lemma releaseEscrow_escrows: "escrows (snd (releaseEscrow e i a k w)) = escrows w"
  unfolding releaseEscrow_def by (rule try_catch_rethrow_escrows) (rule contract_operation_escrows)

lemma cancelEscrow_escrows: "escrows (snd (cancelEscrow e i a k w)) = escrows w"
  unfolding cancelEscrow_def by (rule try_catch_rethrow_escrows) (rule contract_operation_escrows)

lemma refundEscrow_escrows: "escrows (snd (refundEscrow e i a k w)) = escrows w"
  unfolding refundEscrow_def
  by (rule try_catch_rethrow_escrows) (simp add: contract_operation_escrows throw_def)

lemma createEscrow_escrows: "escrows (snd (createEscrow e a k r n t m p q w)) = escrows w"
  unfolding createEscrow_def
  by (rule try_catch_rethrow_escrows)
     (simp add: getAccountInfo_def broadcast_def saveEscrowToDatabase_throws
        bnd_def throw_def ret_def split: option.splits sum.splits)

lemma updateEscrowStatus_escrows: "escrows (snd (updateEscrowStatus i s t w)) = escrows w"
  by (simp add: updateEscrowStatus_throws throw_def)

lemma perform_escrows: "escrows (perform e operation w) = escrows w"
  by (cases operation)
     (simp_all add: processMessage_world releaseEscrow_escrows cancelEscrow_escrows refundEscrow_escrows
        createEscrow_escrows updateEscrowStatus_escrows)

lemma perform_all_escrows: "escrows (perform_all e ops w) = escrows w"
  unfolding perform_all_def by (induction ops arbitrary: w) (simp_all add: perform_escrows)

lemma cancel_of_released_escrow:
  \<comment> \<open>the call is broadcast, the update of the row throws, and the row keeps its status\<close>
  "cancelEscrow scenario_env (JNum 1) (JStr address_U1) (JStr ''key'') (escrow_world ''released'')
     = (Inl (Wrap ''Failed to cancel escrow''
               (Wrap ''Failed to update escrow status'' (PropertyOfNullish ''from''))),
        (escrow_world ''released'')
          \<lparr>chain_log := [ContractCall ''cancel-escrow'' [JNum 1] (JStr ''key'')]\<rparr>)"
  by code_simp

section \<open>The scenarios of the confirmation flow\<close>

text \<open>
  Claim C1 fails in the code. \<open>U1\<close> is registered. The conversation of scenario C, "add contact
  John" with the address \<open>A\<close>, "send 5 to John", "yes", leaves the world as it was: no contact is
  stored, no state staged, no message sent, nothing broadcast. With the contact John in the
  store, \<open>processMessage\<close> throws for "send 5 to John" (its first call on \<open>userService\<close> throws, and
  so does the call on \<open>whatsappService\<close> in its \<open>catch\<close> block); \<open>handleMessage\<close> of the payment
  handler returns the failure of its call on \<open>userService\<close>; \<open>handleSend\<close>, called with the user,
  returns the failure of the contact lookup, and with the address \<open>A\<close> in place of the name the
  failure of its call on \<open>stateService\<close>; and the state flow, given the state that \<open>handleSend\<close>
  means to stage and "yes", throws from its \<open>catch\<close> block: no transfer, no Transaction row, and
  the state, were it staged, is not cleared.
\<close>

theorem scenario_C_nothing_staged:
  "run scenario_env
      [(phone_U1, ''add contact John '' @ address_A), (phone_U1, ''send 5 to John''), (phone_U1, ''yes'')]
      registered_world
     = registered_world
   \<and> processMessage scenario_env phone_U1 ''send 5 to John'' contact_world
     = (Inl (NotAFunction ''whatsappService.sendMessage''), contact_world)
   \<and> payment_handleMessage scenario_env phone_U1 ''send 5 to John'' contact_world
     = (Inr (HFail (HandlerError (NotAFunction ''userService.getByPhone''))), contact_world)
   \<and> handleSend scenario_env phone_U1 ''send 5 to John'' user_U1 contact_world
     = (Inr (HFail (ErrorText (Wrap ''Failed to get contact'' (PropertyOfNullish ''from'')))), contact_world)
   \<and> handleSend scenario_env phone_U1 (''send 5 to '' @ address_A) user_U1 contact_world
     = (Inr (HFail (ErrorText (NotAFunction ''stateService.setState''))), contact_world)
   \<and> payment_handleStateFlow scenario_env phone_U1 ''yes'' payment_state (staged_world payment_state)
     = (Inl (NotAFunction ''stateService.clearState''), staged_world payment_state)"
  by code_simp

text \<open>
  Claim C2 fails in the code. \<open>U1\<close> has an active conversation state of the escrow handler,
  the confirmation of "release escrow #1", and sends "yes". \<open>processMessage\<close> does not read the
  conversation state: it throws at its first call on \<open>userService\<close> and again in its \<open>catch\<close>
  block, so no state flow is run, no reply is sent and the state stays. Neither \<open>handleMessage\<close>
  gets to its test of the state: each returns the failure of its call on \<open>userService\<close>. The
  message that should stage the state, "release escrow #1", fares the same.
\<close>

theorem active_state_not_consulted:
  "state_of (staged_world release_state) phone_U1 = Some (staged_row release_state)
   \<and> processMessage scenario_env phone_U1 ''yes'' (staged_world release_state)
     = (Inl (NotAFunction ''whatsappService.sendMessage''), staged_world release_state)
   \<and> escrow_handleMessage scenario_env phone_U1 ''yes'' (staged_world release_state)
     = (Inr (HFail (HandlerError (NotAFunction ''userService.getByPhone''))), staged_world release_state)
   \<and> payment_handleMessage scenario_env phone_U1 ''yes'' (staged_world payment_state)
     = (Inr (HFail (HandlerError (NotAFunction ''userService.getByPhone''))), staged_world payment_state)
   \<and> processMessage scenario_env phone_U1 ''release escrow #1'' (escrow_world ''active'')
     = (Inl (NotAFunction ''whatsappService.sendMessage''), escrow_world ''active'')"
  by code_simp

text \<open>
  Claim C3 fails in the code at its clause that a second "yes" finds no active state. \<open>U1\<close> has
  a staged confirmation. Whether the reply is "yes" or "no", the state flow of the payment handler
  and that of the escrow handler throw from their \<open>catch\<close> block, whose call of \<open>clearState\<close> is a
  call on the class, and the world is as before: the row of the state is still there, for the
  next "yes" to find. Nothing is broadcast in either case.
\<close>

theorem state_kept_after_reply:
  "state_of (staged_world payment_state) phone_U1 = Some (staged_row payment_state)
   \<and> payment_handleStateFlow scenario_env phone_U1 ''yes'' payment_state (staged_world payment_state)
     = (Inl (NotAFunction ''stateService.clearState''), staged_world payment_state)
   \<and> payment_handleStateFlow scenario_env phone_U1 ''no'' payment_state (staged_world payment_state)
     = (Inl (NotAFunction ''stateService.clearState''), staged_world payment_state)
   \<and> state_of (staged_world release_state) phone_U1 = Some (staged_row release_state)
   \<and> escrow_handleStateFlow scenario_env phone_U1 ''yes'' release_state (staged_world release_state)
     = (Inl (NotAFunction ''stateService.clearState''), staged_world release_state)
   \<and> escrow_handleStateFlow scenario_env phone_U1 ''no'' release_state (staged_world release_state)
     = (Inl (NotAFunction ''stateService.clearState''), staged_world release_state)
   \<and> chain_log (staged_world release_state) = []"
  by code_simp

section \<open>Validation of the amount\<close>



section \<open>Escrows\<close>

text \<open>
  Claim C5 fails in the code. The escrow 1 of \<open>U1\<close> is active and its timeout is not reached.
  \<open>U1\<close> sends "refund escrow #1": \<open>handleRefundEscrow\<close> asks for the escrows of the sender first,
  a query that throws, and answers with that failure, not with the text that the timeout is not
  reached; the tests of the status and of \<open>canRefund\<close> are not made. The world is unchanged, as
  the claim says: no state is staged and the status stays.
\<close>

theorem refund_answered_with_query_failure:
  "find_escrow (escrows (escrow_world ''active'')) 1 = Some (escrow_1 ''active'')
   \<and> sender_phone (escrow_1 ''active'') = JStr phone_U1 \<and> status (escrow_1 ''active'') = ''active''
   \<and> canRefund scenario_env (JNum 1) = False
   \<and> getEscrowsByPhone phone_U1 ''sender'' (escrow_world ''active'')
     = (Inl (Wrap ''Failed to get escrows'' (PropertyOfNullish ''from'')), escrow_world ''active'')
   \<and> handleRefundEscrow scenario_env phone_U1 ''refund escrow #1'' user_U1 (escrow_world ''active'')
     = (Inr (HFail (ErrorText (Wrap ''Failed to get escrows'' (PropertyOfNullish ''from'')))),
        escrow_world ''active'')"
  by code_simp

text \<open>
  Claim C6. No operation changes a row of the table of escrows: the operations of the escrow
  service broadcast their transaction and then throw at the query that should write the row, and
  a message to the webhook gets to no operation. So under every sequence of messages and of
  calls of \<open>createEscrow\<close>, \<open>releaseEscrow\<close>, \<open>refundEscrow\<close>, \<open>cancelEscrow\<close> and
  \<open>updateEscrowStatus\<close>, with whatever arguments, every escrow keeps the status it has: no status
  moves against the order pending, active, terminal, and none leaves a terminal one.
\<close>

theorem escrow_rows_never_change:
  "escrows (perform_all e ops w) = escrows w
   \<and> escrows (run e ms w) = escrows w
   \<and> escrows (snd (releaseEscrow e i a k w)) = escrows w
   \<and> escrows (snd (refundEscrow e i a k w)) = escrows w
   \<and> escrows (snd (cancelEscrow e i a k w)) = escrows w
   \<and> escrows (snd (handleReleaseEscrow e p m u w)) = escrows w"
  by (simp add: perform_all_escrows run_eq releaseEscrow_escrows refundEscrow_escrows
      cancelEscrow_escrows handleReleaseEscrow_world)

section \<open>Resolving the recipient\<close>

text \<open>
  Claim C8 fails in the code. \<open>U1\<close> has the contact John with the address \<open>A\<close>.
  \<open>resolveRecipient\<close> returns an address of the configured network as it is; for the name John
  it throws the failure of the contact query, and for the unknown name Jane it throws the same
  failure, not the error that the recipient is not found. In the send flow the failure is
  answered with its text and nothing is staged, as the claim says.
\<close>

theorem contact_lookup_fails:
  "map contact_name (filter (\<lambda>r. user_phone r = phone_U1) (contacts contact_world)) = [''John'']
   \<and> resolveRecipient scenario_env phone_U1 address_A contact_world
     = (Inr (address_obj address_A), contact_world)
   \<and> resolveRecipient scenario_env phone_U1 ''John'' contact_world
     = (Inl (Wrap ''Failed to get contact'' (PropertyOfNullish ''from'')), contact_world)
   \<and> resolveRecipient scenario_env phone_U1 ''Jane'' contact_world
     = (Inl (Wrap ''Failed to get contact'' (PropertyOfNullish ''from'')), contact_world)
   \<and> handleSend scenario_env phone_U1 ''send 5 to Jane'' user_U1 contact_world
     = (Inr (HFail (ErrorText (Wrap ''Failed to get contact'' (PropertyOfNullish ''from'')))), contact_world)"
  by code_simp

section \<open>Address formats and registration\<close>



lemma stx_match_at_valid: "stx_match_at s = Some m \<Longrightarrow> isValidSTXAddress m"
  by (auto simp: stx_match_at_def isValidSTXAddress_def has_stx_prefix_def startsWith_def
      list_all_iff prefix_def split: if_splits dest!: in_set_takeD set_takeWhileD)

lemma stx_search_valid: "stx_search s = Some m \<Longrightarrow> isValidSTXAddress m"
  by (induction s) (auto split: option.splits dest: stx_match_at_valid)

lemma stx_match_at_iff:
  "stx_match_at s \<noteq> None \<longleftrightarrow>
   (\<exists>pre body v. s = pre @ body @ v \<and> (pre = ''SP'' \<or> pre = ''ST'') \<and> length body = 38
      \<and> list_all is_addr_char body)"
proof
  assume "stx_match_at s \<noteq> None"
  then have p: "has_stx_prefix s" and l: "38 \<le> length (takeWhile is_addr_char (drop 2 s))"
    by (auto simp: stx_match_at_def split: if_splits)
  let ?tw = "takeWhile is_addr_char (drop 2 s)"
  have e1: "take 38 ?tw @ drop 38 ?tw = ?tw" by (rule append_take_drop_id)
  have e2: "?tw @ dropWhile is_addr_char (drop 2 s) = drop 2 s" by (rule takeWhile_dropWhile_id)
  have e3: "take 2 s @ drop 2 s = s" by (rule append_take_drop_id)
  have "take 2 s @ take 38 ?tw @ (drop 38 ?tw @ dropWhile is_addr_char (drop 2 s))
      = take 2 s @ ((take 38 ?tw @ drop 38 ?tw) @ dropWhile is_addr_char (drop 2 s))"
    by (simp only: append_assoc)
  also have "\<dots> = s" by (simp only: e1 e2 e3)
  finally have "s = take 2 s @ take 38 ?tw @ (drop 38 ?tw @ dropWhile is_addr_char (drop 2 s))"
    by (rule sym)
  moreover have "take 2 s = ''SP'' \<or> take 2 s = ''ST''"
    using p by (auto simp: has_stx_prefix_def startsWith_def prefix_def)
  moreover have "length (take 38 ?tw) = 38" using l by simp
  moreover have "list_all is_addr_char (take 38 ?tw)"
    by (auto simp: list_all_iff dest!: in_set_takeD set_takeWhileD)
  ultimately show "\<exists>pre body v. s = pre @ body @ v \<and> (pre = ''SP'' \<or> pre = ''ST'') \<and> length body = 38
      \<and> list_all is_addr_char body"
    by blast
next
  assume "\<exists>pre body v. s = pre @ body @ v \<and> (pre = ''SP'' \<or> pre = ''ST'') \<and> length body = 38
      \<and> list_all is_addr_char body"
  then obtain pre body v where s: "s = pre @ body @ v" and pre: "pre = ''SP'' \<or> pre = ''ST''"
    and l: "length body = 38" and a: "list_all is_addr_char body"
    by blast
  have "has_stx_prefix s" using s pre by (auto simp: has_stx_prefix_def startsWith_def)
  moreover have "drop 2 s = body @ v" using s pre by auto
  then have "takeWhile is_addr_char (drop 2 s) = body @ takeWhile is_addr_char v"
    using a by (simp add: list_all_iff)
  then have "38 \<le> length (takeWhile is_addr_char (drop 2 s))" using l by simp
  ultimately show "stx_match_at s \<noteq> None" by (simp add: stx_match_at_def)
qed

lemma stx_search_iff: "stx_search s \<noteq> None \<longleftrightarrow> (\<exists>u t. s = u @ t \<and> stx_match_at t \<noteq> None)"
proof (induction s)
  case Nil
  then show ?case by simp
next
  case (Cons c cs)
  show ?case
  proof (cases "stx_match_at (c # cs)")
    case (Some m)
    then have "c # cs = [] @ (c # cs) \<and> stx_match_at (c # cs) \<noteq> None" by simp
    then show ?thesis using Some by (simp del: append_Nil) blast
  next
    case None
    have "(\<exists>u t. c # cs = u @ t \<and> stx_match_at t \<noteq> None) \<longleftrightarrow> (\<exists>u t. cs = u @ t \<and> stx_match_at t \<noteq> None)"
    proof
      assume "\<exists>u t. c # cs = u @ t \<and> stx_match_at t \<noteq> None"
      then obtain u t where ut: "c # cs = u @ t" and m: "stx_match_at t \<noteq> None" by blast
      show "\<exists>u t. cs = u @ t \<and> stx_match_at t \<noteq> None"
      proof (cases u)
        case Nil then show ?thesis using ut m None by simp
      next
        case (Cons x u') then show ?thesis using ut m by auto
      qed
    next
      assume "\<exists>u t. cs = u @ t \<and> stx_match_at t \<noteq> None"
      then obtain u t where "cs = u @ t" and m: "stx_match_at t \<noteq> None" by blast
      then have "c # cs = (c # u) @ t" by simp
      then show "\<exists>u t. c # cs = u @ t \<and> stx_match_at t \<noteq> None" using m by blast
    qed
    then show ?thesis using None Cons.IH by simp
  qed
qed

lemma stx_search_holds: "stx_search s \<noteq> None \<longleftrightarrow> holds_address s"
proof
  assume "stx_search s \<noteq> None"
  then obtain u t where s: "s = u @ t" and "stx_match_at t \<noteq> None"
    unfolding stx_search_iff by blast
  then obtain pre body v where "t = pre @ body @ v" "pre = ''SP'' \<or> pre = ''ST''" "length body = 38"
    "list_all is_addr_char body"
    unfolding stx_match_at_iff by blast
  then show "holds_address s" unfolding holds_address_def using s by blast
next
  assume "holds_address s"
  then obtain u pre body v where s: "s = u @ pre @ body @ v" and r: "pre = ''SP'' \<or> pre = ''ST''"
    "length body = 38" "list_all is_addr_char body"
    unfolding holds_address_def by blast
  have "stx_match_at (pre @ body @ v) \<noteq> None" unfolding stx_match_at_iff using r by blast
  then show "stx_search s \<noteq> None" unfolding stx_search_iff using s by blast
qed

lemma valid_holds: "isValidSTXAddress s \<Longrightarrow> holds_address s"
proof -
  assume v: "isValidSTXAddress s"
  let ?b = "drop 2 s"
  have p: "take 2 s = ''SP'' \<or> take 2 s = ''ST''"
    using v by (auto simp: isValidSTXAddress_def has_stx_prefix_def startsWith_def prefix_def)
  have e1: "take 38 ?b @ drop 38 ?b = ?b" by (rule append_take_drop_id)
  have e3: "take 2 s @ ?b = s" by (rule append_take_drop_id)
  have "[] @ take 2 s @ take 38 ?b @ drop 38 ?b = s" by (simp only: append_Nil e1 e3)
  then have "s = [] @ take 2 s @ take 38 ?b @ drop 38 ?b" by (rule sym)
  moreover have "length (take 38 ?b) = 38" using v by (simp add: isValidSTXAddress_def)
  moreover have "list_all is_addr_char (take 38 ?b)"
    using v by (auto simp: isValidSTXAddress_def list_all_iff dest!: in_set_takeD)
  ultimately show ?thesis unfolding holds_address_def using p by blast
qed

lemma isRegistrationMessage_iff: "isRegistrationMessage m \<noteq> None \<longleftrightarrow> holds_address (trim m)"
proof (cases "isValidSTXAddress (trim m)")
  case True
  then show ?thesis using valid_holds [of "trim m"] by (simp add: isRegistrationMessage_def Let_def)
next
  case False
  show ?thesis
  proof (cases "stx_search (trim m)")
    case None
    then show ?thesis using False stx_search_holds [of "trim m"]
      by (simp add: isRegistrationMessage_def Let_def)
  next
    case (Some a)
    then have "isValidSTXAddress a" by (rule stx_search_valid)
    then show ?thesis using False Some stx_search_holds [of "trim m"]
      by (simp add: isRegistrationMessage_def Let_def)
  qed
qed

lemma isRegistrationMessage_valid: "isRegistrationMessage m = Some a \<Longrightarrow> isValidSTXAddress a"
  by (auto simp: isRegistrationMessage_def Let_def split: option.splits if_splits)

lemma trim_idem: "trim (trim s) = trim s"
  by (rule trim_trimmed) (rule trimmed_trim)

lemma trim_Nil: "trim [] = []"
  by (simp add: trim_def)

lemma validateStxAddress_iff:
  "validateStxAddress a = None \<longleftrightarrow>
   length (trim a) = 41 \<and> has_stx_prefix (trim a) \<and> list_all is_addr_char (drop 2 (trim a))"
proof (cases "a = []")
  case True
  then show ?thesis by (simp add: validateStxAddress_def trim_Nil)
next
  case False
  have "length (trim a) = 41 \<Longrightarrow> drop 2 (trim a) \<noteq> []" by auto
  then show ?thesis using False
    by (auto simp: validateStxAddress_def Let_def has_stx_prefix_def)
qed

lemma completeRegistration_order:
  "validateStxAddress (trim a) = Some err \<Longrightarrow>
     completeRegistration w p a = (False, sendMessage w p (InvalidStxAddressFormat err))"
  "validateStxAddress (trim a) = None \<Longrightarrow> addressExists w (trim a) \<Longrightarrow>
     completeRegistration w p a = (False, clearState (sendMessage w p AddressAlreadyRegistered) p)"
  by (simp_all add: completeRegistration_def Let_def)

lemma completeRegistration_accepts:
  "validateStxAddress (trim a) = None \<Longrightarrow> \<not> addressExists w (trim a) \<Longrightarrow> \<not> user_exists w p \<Longrightarrow>
     completeRegistration w p a =
       (True, sendMessage
                (clearState (w\<lparr>users := users w @ [\<lparr>phone_number = p, stx_address = trim a\<rparr>]\<rparr>) p)
                p (Welcome (trim a)))"
  by (simp add: completeRegistration_def Let_def create_user_def)

lemma completeRegistration_fst:
  "fst (completeRegistration w p a) \<longleftrightarrow>
     validateStxAddress (trim a) = None \<and> \<not> addressExists w (trim a) \<and> \<not> user_exists w p"
  by (auto simp: completeRegistration_def Let_def create_user_def split: option.splits)

lemma completeRegistration_registers:
  "fst (completeRegistration w p a) \<longleftrightarrow>
     length (trim a) = 41 \<and> has_stx_prefix (trim a) \<and> list_all is_addr_char (drop 2 (trim a))
     \<and> \<not> addressExists w (trim a) \<and> \<not> user_exists w p"
  unfolding completeRegistration_fst validateStxAddress_iff trim_idem by blast

lemma stx_match_at_Some:
  "stx_match_at t = Some c \<longleftrightarrow>
     address_starts t \<and> c = take 2 t @ take 40 (takeWhile is_addr_char (drop 2 t))"
  by (auto simp: stx_match_at_def address_starts_def)

lemma stx_match_at_None: "stx_match_at t = None \<longleftrightarrow> \<not> address_starts t"
  by (auto simp: stx_match_at_def address_starts_def)

lemma stx_search_first:
  "stx_search s = Some c \<longleftrightarrow>
     (\<exists>n\<le>length s. (\<forall>k<n. stx_match_at (drop k s) = None) \<and> stx_match_at (drop n s) = Some c)"
proof (induction s)
  case Nil
  then show ?case by simp
next
  case (Cons x xs)
  show ?case
  proof (cases "stx_match_at (x # xs)")
    case (Some m)
    have "(\<exists>n\<le>length (x # xs). (\<forall>k<n. stx_match_at (drop k (x # xs)) = None)
        \<and> stx_match_at (drop n (x # xs)) = Some c) \<longleftrightarrow> m = c"
    proof
      assume "\<exists>n\<le>length (x # xs). (\<forall>k<n. stx_match_at (drop k (x # xs)) = None)
        \<and> stx_match_at (drop n (x # xs)) = Some c"
      then obtain n where n: "\<forall>k<n. stx_match_at (drop k (x # xs)) = None"
        "stx_match_at (drop n (x # xs)) = Some c" by blast
      have "n = 0"
      proof (rule ccontr)
        assume "n \<noteq> 0"
        then have "stx_match_at (drop 0 (x # xs)) = None" using n(1) by blast
        then show False using Some by simp
      qed
      then show "m = c" using n(2) Some by simp
    next
      assume "m = c"
      then have "(\<forall>k<0. stx_match_at (drop k (x # xs)) = None)
        \<and> stx_match_at (drop 0 (x # xs)) = Some c" using Some by simp
      then show "\<exists>n\<le>length (x # xs). (\<forall>k<n. stx_match_at (drop k (x # xs)) = None)
        \<and> stx_match_at (drop n (x # xs)) = Some c" by blast
    qed
    then show ?thesis using Some by simp
  next
    case None
    have "(\<exists>n\<le>length (x # xs). (\<forall>k<n. stx_match_at (drop k (x # xs)) = None)
        \<and> stx_match_at (drop n (x # xs)) = Some c)
      \<longleftrightarrow> (\<exists>n\<le>length xs. (\<forall>k<n. stx_match_at (drop k xs) = None) \<and> stx_match_at (drop n xs) = Some c)"
    proof
      assume "\<exists>n\<le>length (x # xs). (\<forall>k<n. stx_match_at (drop k (x # xs)) = None)
        \<and> stx_match_at (drop n (x # xs)) = Some c"
      then obtain n where n: "n \<le> length (x # xs)" "\<forall>k<n. stx_match_at (drop k (x # xs)) = None"
        "stx_match_at (drop n (x # xs)) = Some c" by blast
      have "n \<noteq> 0" using n(3) None by (cases n) auto
      then obtain n' where n': "n = Suc n'" by (cases n) auto
      have "\<forall>k<n'. stx_match_at (drop k xs) = None"
      proof (intro allI impI)
        fix k assume "k < n'"
        then have "Suc k < n" using n' by simp
        then have "stx_match_at (drop (Suc k) (x # xs)) = None" using n(2) by blast
        then show "stx_match_at (drop k xs) = None" by simp
      qed
      moreover have "stx_match_at (drop n' xs) = Some c" using n(3) n' by simp
      moreover have "n' \<le> length xs" using n(1) n' by simp
      ultimately show "\<exists>n\<le>length xs. (\<forall>k<n. stx_match_at (drop k xs) = None)
        \<and> stx_match_at (drop n xs) = Some c" by blast
    next
      assume "\<exists>n\<le>length xs. (\<forall>k<n. stx_match_at (drop k xs) = None) \<and> stx_match_at (drop n xs) = Some c"
      then obtain n where n: "n \<le> length xs" "\<forall>k<n. stx_match_at (drop k xs) = None"
        "stx_match_at (drop n xs) = Some c" by blast
      have "\<forall>k<Suc n. stx_match_at (drop k (x # xs)) = None"
      proof (intro allI impI)
        fix k assume k: "k < Suc n"
        show "stx_match_at (drop k (x # xs)) = None"
        proof (cases k)
          case 0 then show ?thesis using None by simp
        next
          case (Suc k') then show ?thesis using n(2) k by simp
        qed
      qed
      moreover have "stx_match_at (drop (Suc n) (x # xs)) = Some c" using n(3) by simp
      moreover have "Suc n \<le> length (x # xs)" using n(1) by simp
      ultimately show "\<exists>n\<le>length (x # xs). (\<forall>k<n. stx_match_at (drop k (x # xs)) = None)
        \<and> stx_match_at (drop n (x # xs)) = Some c" by blast
    qed
    then show ?thesis using None Cons.IH by simp
  qed
qed

lemma match_parts:
  assumes a: "address_starts t"
  defines "c \<equiv> take 2 t @ take 40 (takeWhile is_addr_char (drop 2 t))"
  shows "\<exists>post. t = c @ post \<and> isValidSTXAddress c
     \<and> (length c = 42 \<or> post = [] \<or> \<not> is_addr_char (hd post))"
proof -
  let ?tw = "takeWhile is_addr_char (drop 2 t)"
  let ?dw = "dropWhile is_addr_char (drop 2 t)"
  let ?post = "drop 40 ?tw @ ?dw"
  have p: "has_stx_prefix t" and l: "38 \<le> length ?tw" using a by (auto simp: address_starts_def)
  have l2: "2 \<le> length t" using p by (auto simp: has_stx_prefix_def startsWith_def prefix_def)
  have e1: "take 40 ?tw @ drop 40 ?tw = ?tw" by (rule append_take_drop_id)
  have e2: "?tw @ ?dw = drop 2 t" by (rule takeWhile_dropWhile_id)
  have e3: "take 2 t @ drop 2 t = t" by (rule append_take_drop_id)
  have "c @ ?post = take 2 t @ ((take 40 ?tw @ drop 40 ?tw) @ ?dw)"
    by (simp only: c_def append_assoc)
  also have "\<dots> = t" by (simp only: e1 e2 e3)
  finally have t: "t = c @ ?post" by (rule sym)
  have pc: "has_stx_prefix c"
    using p l2 by (auto simp: c_def has_stx_prefix_def startsWith_def prefix_def)
  have dc: "drop 2 c = take 40 ?tw" using l2 by (simp add: c_def)
  have "list_all is_addr_char (take 40 ?tw)"
    by (auto simp: list_all_iff dest!: in_set_takeD set_takeWhileD)
  then have v: "isValidSTXAddress c" using pc dc l by (simp add: isValidSTXAddress_def)
  have lc: "length c = 2 + min (length ?tw) 40" using l2 by (simp add: c_def)
  have "length c = 42 \<or> ?post = [] \<or> \<not> is_addr_char (hd ?post)"
  proof (cases "40 \<le> length ?tw")
    case True then show ?thesis using lc by simp
  next
    case False
    then have post: "?post = ?dw" by simp
    show ?thesis
    proof (cases "?dw = []")
      case True then show ?thesis using post by simp
    next
      case False
      then have "\<not> is_addr_char (hd ?dw)" by (rule hd_dropWhile)
      then show ?thesis using post by simp
    qed
  qed
  then show ?thesis using t v by blast
qed

lemma match_whole:
  assumes v: "isValidSTXAddress c"
    and m: "length c = 42 \<or> post = [] \<or> \<not> is_addr_char (hd post)"
  shows "stx_match_at (c @ post) = Some c"
proof -
  have p: "has_stx_prefix c" and l: "38 \<le> length (drop 2 c)" "length (drop 2 c) \<le> 40"
    and a: "list_all is_addr_char (drop 2 c)"
    using v by (auto simp: isValidSTXAddress_def)
  have l2: "2 \<le> length c" using p by (auto simp: has_stx_prefix_def startsWith_def prefix_def)
  have d: "drop 2 (c @ post) = drop 2 c @ post" using l2 by simp
  have tw: "takeWhile is_addr_char (drop 2 c @ post) = drop 2 c @ takeWhile is_addr_char post"
    using a by (simp add: list_all_iff)
  have pp: "has_stx_prefix (c @ post)"
    using p by (auto simp: has_stx_prefix_def startsWith_def)
  have "38 \<le> length (drop 2 c @ takeWhile is_addr_char post)" using l by simp
  then have st: "address_starts (c @ post)" unfolding address_starts_def d tw using pp by blast
  have e40: "take 40 (drop 2 c @ takeWhile is_addr_char post) = drop 2 c"
  proof -
    consider "length c = 42" | "post = []" | "post \<noteq> []" "\<not> is_addr_char (hd post)" using m by blast
    then show ?thesis
    proof cases
      case 1 then show ?thesis using l2 by simp
    next
      case 2 then show ?thesis using l by simp
    next
      case 3
      then have "takeWhile is_addr_char post = []" by (cases post) auto
      then show ?thesis using l by simp
    qed
  qed
  have e2: "take 2 (c @ post) = take 2 c" using l2 by simp
  have "take 2 (c @ post) @ take 40 (takeWhile is_addr_char (drop 2 (c @ post))) = c"
    by (simp only: d tw e40 e2 append_take_drop_id)
  then show ?thesis using st unfolding stx_match_at_Some by simp
qed

lemma stx_search_first_address: "stx_search t = Some c \<longleftrightarrow> first_address t c"
proof
  assume "stx_search t = Some c"
  then obtain n where n: "n \<le> length t" "\<forall>k<n. stx_match_at (drop k t) = None"
    "stx_match_at (drop n t) = Some c"
    unfolding stx_search_first by blast
  have st: "address_starts (drop n t)"
    and c: "c = take 2 (drop n t) @ take 40 (takeWhile is_addr_char (drop 2 (drop n t)))"
    using n(3) unfolding stx_match_at_Some by auto
  obtain post where post: "drop n t = c @ post" "isValidSTXAddress c"
    "length c = 42 \<or> post = [] \<or> \<not> is_addr_char (hd post)"
    using match_parts [OF st] c by blast
  have "take n t @ drop n t = t" by (rule append_take_drop_id)
  then have t: "t = take n t @ c @ post" using post(1) by simp
  have ln: "length (take n t) = n" using n(1) by simp
  have "\<forall>k<length (take n t). \<not> address_starts (drop k t)"
    using n(2) ln by (simp add: stx_match_at_None)
  then show "first_address t c" unfolding first_address_def using t post(2,3) by blast
next
  assume "first_address t c"
  then obtain pre post where t: "t = pre @ c @ post"
    and f: "\<forall>k<length pre. \<not> address_starts (drop k t)"
    and v: "isValidSTXAddress c" and m: "length c = 42 \<or> post = [] \<or> \<not> is_addr_char (hd post)"
    unfolding first_address_def by blast
  have d: "drop (length pre) t = c @ post" using t by simp
  have "stx_match_at (drop (length pre) t) = Some c" using match_whole [OF v m] d by simp
  moreover have "\<forall>k<length pre. stx_match_at (drop k t) = None" using f by (simp add: stx_match_at_None)
  moreover have "length pre \<le> length t" using t by simp
  ultimately show "stx_search t = Some c" unfolding stx_search_first by blast
qed

lemma valid_first_address: "isValidSTXAddress t \<Longrightarrow> first_address t t"
proof -
  assume v: "isValidSTXAddress t"
  have "t = [] @ t @ []" by simp
  moreover have "\<forall>k<length ([] :: string). \<not> address_starts (drop k t)" by simp
  ultimately show ?thesis unfolding first_address_def using v by blast
qed

lemma isRegistrationMessage_first: "isRegistrationMessage m = Some c \<longleftrightarrow> first_address (trim m) c"
proof (cases "isValidSTXAddress (trim m)")
  case True
  then have "stx_search (trim m) = Some (trim m)"
    using valid_first_address stx_search_first_address by blast
  then have "isRegistrationMessage m = stx_search (trim m)"
    using True by (simp add: isRegistrationMessage_def Let_def)
  then show ?thesis by (simp add: stx_search_first_address)
next
  case False
  have "isRegistrationMessage m = stx_search (trim m)"
    using False by (auto simp: isRegistrationMessage_def Let_def split: option.splits dest: stx_search_valid)
  then show ?thesis by (simp add: stx_search_first_address)
qed

text \<open>
  Claim C9, as amended. (1) \<open>isRegistrationMessage\<close> finds a candidate exactly when the trimmed
  message contains \<open>SP\<close> or \<open>ST\<close> followed by 38 characters of \<open>[0-9A-Z]\<close>. (2) The candidate is
  the first address of the trimmed message: the text at the leftmost such place, made of the
  prefix and the characters of \<open>[0-9A-Z]\<close> that follow it, up to 40 of them, so 40 to 42
  characters in all. (3) The address format of the address-entry step is that of the texts which,
  trimmed, have 41 characters, start with \<open>SP\<close> or \<open>ST\<close> and go on in \<open>[0-9A-Z]\<close>. (4) A text of
  another format is answered with the format error whether or not the address is registered;
  (5) for a text of the format the duplicate check follows; (6) a text of the format with an
  address that no user has registers the user, when the phone number is not registered yet; and
  (7) the step registers in no other case: it accepts exactly the texts of the format with an
  address and a phone number that are new.
\<close>

theorem registration_address_formats:
  "(isRegistrationMessage m \<noteq> None \<longleftrightarrow> holds_address (trim m))
   \<and> (isRegistrationMessage m = Some c \<longleftrightarrow> first_address (trim m) c)
   \<and> (validateStxAddress a = None \<longleftrightarrow>
         length (trim a) = 41 \<and> has_stx_prefix (trim a) \<and> list_all is_addr_char (drop 2 (trim a)))
   \<and> (\<forall>err. validateStxAddress (trim a) = Some err \<longrightarrow>
         completeRegistration w p a = (False, sendMessage w p (InvalidStxAddressFormat err)))
   \<and> (validateStxAddress (trim a) = None \<longrightarrow> addressExists w (trim a) \<longrightarrow>
         completeRegistration w p a = (False, clearState (sendMessage w p AddressAlreadyRegistered) p))
   \<and> (validateStxAddress (trim a) = None \<longrightarrow> \<not> addressExists w (trim a) \<longrightarrow> \<not> user_exists w p \<longrightarrow>
         completeRegistration w p a =
           (True, sendMessage
                    (clearState (w\<lparr>users := users w @ [\<lparr>phone_number = p, stx_address = trim a\<rparr>]\<rparr>) p)
                    p (Welcome (trim a))))
   \<and> (fst (completeRegistration w p a) \<longleftrightarrow>
         length (trim a) = 41 \<and> has_stx_prefix (trim a) \<and> list_all is_addr_char (drop 2 (trim a))
         \<and> \<not> addressExists w (trim a) \<and> \<not> user_exists w p)"
proof (intro conjI allI impI)
  show "isRegistrationMessage m \<noteq> None \<longleftrightarrow> holds_address (trim m)"
    by (rule isRegistrationMessage_iff)
  show "isRegistrationMessage m = Some c \<longleftrightarrow> first_address (trim m) c"
    by (rule isRegistrationMessage_first)
  show "validateStxAddress a = None \<longleftrightarrow>
      length (trim a) = 41 \<and> has_stx_prefix (trim a) \<and> list_all is_addr_char (drop 2 (trim a))"
    by (rule validateStxAddress_iff)
  show "fst (completeRegistration w p a) \<longleftrightarrow>
      length (trim a) = 41 \<and> has_stx_prefix (trim a) \<and> list_all is_addr_char (drop 2 (trim a))
      \<and> \<not> addressExists w (trim a) \<and> \<not> user_exists w p"
    by (rule completeRegistration_registers)
qed (simp_all add: completeRegistration_order completeRegistration_accepts)

text \<open>
  Claim C9, witness: a message that holds the address \<open>A\<close> of 41 characters; the address-entry
  step with a text of 40 characters, with the address \<open>A\<close>, which \<open>U2\<close> has registered, and with
  an address that no user has.
\<close>

theorem registration_address_formats_witness:
  "isRegistrationMessage (''my address is '' @ address_A @ '' ok'') = Some address_A
   \<and> (\<exists>pre post. ''my address is '' @ address_A @ '' ok'' = pre @ address_A @ post)
   \<and> validateStxAddress address_A = None
   \<and> completeRegistration registered_world phone_U3 short_address
       = (False, sendMessage registered_world phone_U3 (InvalidStxAddressFormat (AddressLength 40)))
   \<and> completeRegistration registered_world phone_U3 address_A
       = (False, clearState (sendMessage registered_world phone_U3 AddressAlreadyRegistered) phone_U3)
   \<and> fst (completeRegistration registered_world phone_U3 address_U3)
   \<and> users (snd (completeRegistration registered_world phone_U3 address_U3))
       = users registered_world @ [\<lparr>phone_number = phone_U3, stx_address = address_U3\<rparr>]"
proof -
  let ?m = "''my address is '' @ address_A @ '' ok''"
  note T = registration_address_formats [where w = registered_world and p = phone_U3]
  have m: "isRegistrationMessage ?m = Some address_A" by code_simp
  have tm: "trim ?m = ?m" by code_simp
  have v: "validateStxAddress address_A = None" by code_simp
  have s: "validateStxAddress (trim short_address) = Some (AddressLength 40)" by code_simp
  have t: "validateStxAddress (trim address_A) = None" by code_simp
  have x: "addressExists registered_world (trim address_A)" by code_simp
  have t3: "validateStxAddress (trim address_U3) = None" and tr3: "trim address_U3 = address_U3"
    and x3: "\<not> addressExists registered_world (trim address_U3)"
    and u3: "\<not> user_exists registered_world phone_U3"
    by code_simp+
  have "first_address (trim ?m) address_A"
    using T [where m = ?m and c = address_A, THEN conjunct2, THEN conjunct1, THEN iffD1, OF m] .
  then have 1: "\<exists>pre post. ?m = pre @ address_A @ post"
    unfolding first_address_def tm by blast
  have 2: "completeRegistration registered_world phone_U3 short_address
       = (False, sendMessage registered_world phone_U3 (InvalidStxAddressFormat (AddressLength 40)))"
    using T [where a = short_address, THEN conjunct2, THEN conjunct2, THEN conjunct2, THEN conjunct1,
        rule_format, OF s] .
  have 3: "completeRegistration registered_world phone_U3 address_A
       = (False, clearState (sendMessage registered_world phone_U3 AddressAlreadyRegistered) phone_U3)"
    using T [where a = address_A, THEN conjunct2, THEN conjunct2, THEN conjunct2, THEN conjunct2,
        THEN conjunct1, rule_format, OF t x] .
  have 4: "completeRegistration registered_world phone_U3 address_U3 =
      (True, sendMessage
               (clearState (registered_world\<lparr>users := users registered_world
                  @ [\<lparr>phone_number = phone_U3, stx_address = trim address_U3\<rparr>]\<rparr>) phone_U3)
               phone_U3 (Welcome (trim address_U3)))"
    using T [where a = address_U3, THEN conjunct2, THEN conjunct2, THEN conjunct2, THEN conjunct2,
        THEN conjunct2, THEN conjunct1, rule_format, OF t3 x3 u3] .
  have 5: "fst (completeRegistration registered_world phone_U3 address_U3)" using 4 by simp
  have 6: "users (snd (completeRegistration registered_world phone_U3 address_U3))
       = users registered_world @ [\<lparr>phone_number = phone_U3, stx_address = address_U3\<rparr>]"
    using 4 by (simp add: tr3 sendMessage_def clearState_def)
  show ?thesis using m 1 v 2 3 5 6 by (intro conjI)
qed

text \<open>
  Claim C9 as stated fails: \<open>SP\<close> followed by 38 characters is a registration candidate of 40
  characters, not 41, and the address-entry step does not accept it.
\<close>

theorem registration_candidate_rejected:
  "isRegistrationMessage short_address = Some short_address \<and> length short_address = 40
   \<and> validateStxAddress short_address = Some (AddressLength 40)"
  by code_simp

end
